theory Spec2Isabelle
  imports Complex_Main "HOL-Library.Word"
begin

unbundle bit_operations_syntax

section \<open>Data model\<close>

text \<open>
  The library is TypeScript running on JavaScript objects.  An optional property is an
  \<open>option\<close>; a thrown exception is the left injection of a sum.  \<open>TypeError\<close> is
  what the runtime raises when a property of \<open>undefined\<close> is read or written;
  \<open>BigNumberError\<close> is what the decimal library raises when it is handed a value that
  is not a string.
\<close>

datatype error =
    ValidationError string
  | NotFoundError string
  | SyntaxError
  | TypeError
  | BigNumberError
  | TransportError string

text \<open>\<open>Amount\<close> of \<open>common/types/objects\<close>: a currency, a decimal string, and
  optionally the counterparty of an issued currency.\<close>

record Amount =
  currency :: string
  amount_value :: string
  counterparty :: "string option"

text \<open>The destination amount of a route query: the value may be left unset.\<close>

record LaxAmount =
  lax_currency :: string
  lax_value :: "string option"
  lax_counterparty :: "string option"

text \<open>
  A \<open>StoxumdAmount\<close> is what goes over the wire: a plain decimal string for the
  native currency (\<open>typeof amount === 'string'\<close>), an object with currency, issuer and
  value for an issued currency (\<open>typeof amount === 'object'\<close>).
\<close>

record IssuedAmount =
  iou_currency :: string
  iou_issuer :: "string option"
  iou_value :: string

datatype StoxumdAmount = Drops string | Issued IssuedAmount

text \<open>Truthiness of an optional string: \<open>undefined\<close> and the empty string are falsy.\<close>

definition truthy :: "string option \<Rightarrow> bool" where
  "truthy s = (case s of None \<Rightarrow> False | Some v \<Rightarrow> v \<noteq> [])"

subsection \<open>Arbitrary-precision decimals\<close>

text \<open>
  Modelled from the spec: \<open>BigNumber\<close> is the arbitrary-precision decimal library the
  route code compares amounts with; it is not part of the sources.  Its reading of a
  string is modelled for decimal numerals
  \<open>-?(digits(.digits*)? | .digits)(e[+-]?digits)?\<close>, as an exact rational.  Anything
  else reads as not-a-number (\<open>None\<close>), and not-a-number compares false with
  everything.
\<close>

definition isDigit :: "char \<Rightarrow> bool" where
  "isDigit c = (c \<in> set ''0123456789'')"

definition digitValue :: "char \<Rightarrow> nat" where
  "digitValue c = of_char c - 48"

definition digitsValue :: "string \<Rightarrow> nat" where
  "digitsValue ds = foldl (\<lambda>n c. 10 * n + digitValue c) 0 ds"

definition stripSign :: "string \<Rightarrow> bool \<times> string" where
  "stripSign s = (case s of [] \<Rightarrow> (False, s)
                  | c # r \<Rightarrow> if c = CHR ''-'' then (True, r) else (False, s))"

definition exponentPart :: "string \<Rightarrow> int option" where
  "exponentPart s =
     (case s of
        [] \<Rightarrow> Some 0
      | c # r \<Rightarrow>
          if c = CHR ''e'' \<or> c = CHR ''E'' then
            (let (neg, ds) = (case r of [] \<Rightarrow> (False, r)
                               | d # t \<Rightarrow> if d = CHR ''-'' then (True, t)
                                         else if d = CHR ''+'' then (False, t)
                                         else (False, r))
             in if ds \<noteq> [] \<and> list_all isDigit ds
                then Some (if neg then - int (digitsValue ds) else int (digitsValue ds))
                else None)
          else None)"

definition scale10 :: "rat \<Rightarrow> int \<Rightarrow> rat" where
  "scale10 x e = (if 0 \<le> e then x * 10 ^ nat e else x / 10 ^ nat (- e))"

definition BigNumber :: "string \<Rightarrow> rat option" where
  "BigNumber s =
     (let (neg, body) = stripSign s;
          ip = takeWhile isDigit body;
          r1 = dropWhile isDigit body;
          (dot, fp, r2) = (case r1 of [] \<Rightarrow> (False, [], r1)
                           | c # r \<Rightarrow> if c = CHR ''.''
                                     then (True, takeWhile isDigit r, dropWhile isDigit r)
                                     else (False, [], r1))
      in if ip = [] \<and> \<not> (dot \<and> fp \<noteq> []) then None
         else
           (case exponentPart r2 of
              None \<Rightarrow> None
            | Some e \<Rightarrow>
                (let m = of_nat (digitsValue (ip @ fp)) / 10 ^ length fp
                 in Some (scale10 (if neg then - m else m) e))))"

text \<open>\<open>x.eq(y)\<close> and \<open>x.greaterThanOrEqualTo(y)\<close> on readings.\<close>

definition bn_eq :: "rat option \<Rightarrow> rat option \<Rightarrow> bool" where
  "bn_eq x y = (case (x, y) of (Some a, Some b) \<Rightarrow> a = b | _ \<Rightarrow> False)"

definition greaterThanOrEqualTo :: "rat option \<Rightarrow> rat option \<Rightarrow> bool" where
  "greaterThanOrEqualTo x y = (case (x, y) of (Some a, Some b) \<Rightarrow> b \<le> a | _ \<Rightarrow> False)"

section \<open>Route queries (\<open>ledger/pathfind.ts\<close>)\<close>

subsection \<open>Intents, requests and responses\<close>

record SourceCurrency =
  sc_currency :: string
  sc_counterparty :: "string option"

record IssuerCurrency =
  ic_currency :: string
  ic_issuer :: "string option"

record PathFindSource =
  src_address :: string
  src_amount :: "Amount option"
  src_currencies :: "SourceCurrency list option"

record PathFindDestination =
  dst_address :: string
  dst_amount :: LaxAmount

record PathFind =
  pf_source :: PathFindSource
  pf_destination :: PathFindDestination

record PathFindRequest =
  command :: string
  req_source_account :: string
  req_destination_account :: string
  req_destination_amount :: StoxumdAmount
  req_source_currencies :: "IssuerCurrency list option"
  send_max :: "StoxumdAmount option"

text \<open>A route alternative as the server sends it.  The steps of a computed path are
  only passed through, so each is kept as its text.\<close>

record Alternative =
  paths_computed :: "string list list"
  source_amount :: "StoxumdAmount option"

record StoxumdPathsResponse =
  alternatives :: "Alternative list option"
  destination_account :: string
  destination_amount :: "StoxumdAmount option"
  destination_currencies :: "string list option"
  source_account :: string
  source_currencies :: "IssuerCurrency list option"

text \<open>The round trips the route code makes, in the order it makes them.\<close>

datatype call = Request PathFindRequest | GetXRPBalance string

subsection \<open>Request builder\<close>

text \<open>
  \<open>addParams\<close>: the response with \<open>source_account\<close> and \<open>source_currencies\<close>
  overwritten by the request's, and \<open>destination_amount\<close> filled in from the request
  where the response has none.
\<close>

definition addParams :: "PathFindRequest \<Rightarrow> StoxumdPathsResponse \<Rightarrow> StoxumdPathsResponse" where
  "addParams request result =
     result\<lparr>source_account := req_source_account request,
            source_currencies := req_source_currencies request,
            destination_amount :=
              (case destination_amount result of
                 None \<Rightarrow> Some (req_destination_amount request)
               | Some a \<Rightarrow> Some a)\<rparr>"

text \<open>\<open>if (typeof a === 'object' && !a.issuer) a.issuer = address\<close>.\<close>

definition defaultIssuer :: "string \<Rightarrow> StoxumdAmount \<Rightarrow> StoxumdAmount" where
  "defaultIssuer address a =
     (case a of
        Drops s \<Rightarrow> Drops s
      | Issued i \<Rightarrow> if \<not> truthy (iou_issuer i)
                    then Issued (i\<lparr>iou_issuer := Some address\<rparr>) else Issued i)"

definition bothAmountsMessage :: string where
  "bothAmountsMessage =
     ''Cannot specify both source.amount'' @ '' and destination.amount.value in getPaths''"

text \<open>
  The request object that \<open>requestPathFind\<close> builds (its lines up to the transport
  call), or the validation error it throws.  The amount encoder \<open>toStoxumdAmount\<close> and
  \<open>renameCounterpartyToIssuer\<close> live in modules that are not among the sources and
  are parameters.
\<close>

definition buildRequest ::
  "(Amount \<Rightarrow> StoxumdAmount) \<Rightarrow> (SourceCurrency \<Rightarrow> IssuerCurrency) \<Rightarrow> PathFind
     \<Rightarrow> error + PathFindRequest" where
  "buildRequest toStoxumdAmount renameCounterpartyToIssuer pathfind =
     (let d = dst_amount (pf_destination pathfind);
          destinationAmount =
            \<lparr>currency = lax_currency d,
             amount_value = (case lax_value d of None \<Rightarrow> ''-1'' | Some v \<Rightarrow> v),
             counterparty = lax_counterparty d\<rparr>;
          request0 =
            \<lparr>command = ''ripple_path_find'',
             req_source_account = src_address (pf_source pathfind),
             req_destination_account = dst_address (pf_destination pathfind),
             req_destination_amount = toStoxumdAmount destinationAmount,
             req_source_currencies = None,
             send_max = None\<rparr>;
          request1 = request0\<lparr>req_destination_amount :=
            defaultIssuer (req_destination_account request0) (req_destination_amount request0)\<rparr>;
          request2 =
            (case src_currencies (pf_source pathfind) of
               None \<Rightarrow> request1
             | Some cs \<Rightarrow>
                 if length cs > 0
                 then request1\<lparr>req_source_currencies := Some (map renameCounterpartyToIssuer cs)\<rparr>
                 else request1)
      in case src_amount (pf_source pathfind) of
           None \<Rightarrow> Inr request2
         | Some a \<Rightarrow>
             if lax_value d \<noteq> None
             then Inl (ValidationError bothAmountsMessage)
             else Inr (request2\<lparr>send_max :=
                    Some (defaultIssuer (src_address (pf_source pathfind)) (toStoxumdAmount a))\<rparr>))"

text \<open>
  \<open>requestPathFind\<close>: build the request, send it over the connection, add the request's
  parameters to the answer.  The first component is the list of round trips made; a
  failed round trip is passed on as it is.
\<close>

definition requestPathFind ::
  "(Amount \<Rightarrow> StoxumdAmount) \<Rightarrow> (SourceCurrency \<Rightarrow> IssuerCurrency)
     \<Rightarrow> (PathFindRequest \<Rightarrow> error + StoxumdPathsResponse) \<Rightarrow> PathFind
     \<Rightarrow> call list \<times> (error + StoxumdPathsResponse)" where
  "requestPathFind toStoxumdAmount renameCounterpartyToIssuer connection pathfind =
     (case buildRequest toStoxumdAmount renameCounterpartyToIssuer pathfind of
        Inl e \<Rightarrow> ([], Inl e)
      | Inr request \<Rightarrow>
          ([Request request],
           (case connection request of
              Inl e \<Rightarrow> Inl e
            | Inr paths \<Rightarrow> Inr (addParams request paths))))"

subsection \<open>Response processor\<close>

text \<open>
  \<open>addDirectXrpPath\<close>.  The comparison is handed \<open>paths.destination_amount\<close> as it
  is (the source marks this: ``destinationAmount can be a currency amount object!'').  A
  plain string is read as its numeral; handed an object, or \<open>undefined\<close>, the decimal
  library raises, before anything is prepended.  \<open>unshift\<close> on a missing list is a
  \<open>TypeError\<close>.
\<close>

definition addDirectXrpPath :: "StoxumdPathsResponse \<Rightarrow> string \<Rightarrow> error + StoxumdPathsResponse" where
  "addDirectXrpPath paths xrpBalance =
     (let destinationAmount = destination_amount paths
      in case destinationAmount of
           Some (Drops s) \<Rightarrow>
             if greaterThanOrEqualTo (BigNumber xrpBalance) (BigNumber s)
             then (case alternatives paths of
                     None \<Rightarrow> Inl TypeError
                   | Some alts \<Rightarrow>
                       Inr (paths\<lparr>alternatives :=
                         Some (\<lparr>paths_computed = [], source_amount = destination_amount paths\<rparr>
                               # alts)\<rparr>))
             else Inr paths
         | _ \<Rightarrow> Inl BigNumberError)"

definition isStoxumdIOUAmount :: "StoxumdAmount option \<Rightarrow> bool" where
  "isStoxumdIOUAmount amount =
     (case amount of
        Some (Issued i) \<Rightarrow> iou_currency i \<noteq> [] \<and> iou_currency i \<noteq> ''XRP''
      | _ \<Rightarrow> False)"

text \<open>\<open>_.includes\<close> of a list that may be \<open>undefined\<close>.\<close>

definition lodash_includes :: "string list option \<Rightarrow> string \<Rightarrow> bool" where
  "lodash_includes xs x = (case xs of None \<Rightarrow> False | Some l \<Rightarrow> x \<in> set l)"

text \<open>\<open>getXRPBalance\<close> (the balance lookup, one round trip) is a parameter.\<close>

definition conditionallyAddDirectXRPPath ::
  "(string \<Rightarrow> error + string) \<Rightarrow> string \<Rightarrow> StoxumdPathsResponse
     \<Rightarrow> call list \<times> (error + StoxumdPathsResponse)" where
  "conditionallyAddDirectXRPPath getXRPBalance address paths =
     (if isStoxumdIOUAmount (destination_amount paths)
         \<or> \<not> lodash_includes (destination_currencies paths) ''XRP''
      then ([], Inr paths)
      else ([GetXRPBalance address],
            (case getXRPBalance address of
               Inl e \<Rightarrow> Inl e
             | Inr xrpBalance \<Rightarrow> addDirectXrpPath paths xrpBalance)))"

text \<open>The predicate of the filter in \<open>filterSourceFundsLowPaths\<close>.\<close>

definition keepAlternative :: "PathFind \<Rightarrow> Alternative \<Rightarrow> bool" where
  "keepAlternative pathfind alt =
     (case source_amount alt of
        None \<Rightarrow> False
      | Some (Drops s) \<Rightarrow> False
      | Some (Issued i) \<Rightarrow>
          (case src_amount (pf_source pathfind) of
             None \<Rightarrow> False
           | Some a \<Rightarrow> bn_eq (BigNumber (iou_value i)) (BigNumber (amount_value a))))"

definition filterSourceFundsLowPaths :: "PathFind \<Rightarrow> StoxumdPathsResponse \<Rightarrow> StoxumdPathsResponse" where
  "filterSourceFundsLowPaths pathfind paths =
     (if src_amount (pf_source pathfind) \<noteq> None
         \<and> lax_value (dst_amount (pf_destination pathfind)) = None
         \<and> alternatives paths \<noteq> None
      then paths\<lparr>alternatives :=
             Some (filter (keepAlternative pathfind) (the (alternatives paths)))\<rparr>
      else paths)"

text \<open>\<open>Array.prototype.join\<close>.\<close>

fun join :: "string \<Rightarrow> string list \<Rightarrow> string" where
  "join sep [] = []"
| "join sep [x] = x"
| "join sep (x # y # ys) = x @ sep @ join sep (y # ys)"

definition nonEmpty :: "'a list option \<Rightarrow> bool" where
  "nonEmpty xs = (case xs of None \<Rightarrow> False | Some l \<Rightarrow> length l > 0)"

definition notAcceptedMessage :: "string \<Rightarrow> string list \<Rightarrow> string" where
  "notAcceptedMessage cur accepted =
     ''No paths found. '' @ ''The destination_account does not accept '' @ cur
       @ '', they only accept: '' @ join '', '' accepted"

definition specifiedCurrenciesMessage :: string where
  "specifiedCurrenciesMessage =
     ''No paths found. Please ensure'' @ '' that the source_account has sufficient funds to execute''
       @ '' the payment in one of the specified source_currencies. If it does''
       @ '' there may be insufficient liquidity in the network to execute''
       @ '' this payment right now''"

definition fallbackMessage :: string where
  "fallbackMessage =
     ''No paths found.'' @ '' Please ensure that the source_account has sufficient funds to''
       @ '' execute the payment. If it does there may be insufficient liquidity''
       @ '' in the network to execute this payment right now''"

text \<open>\<open>formatResponse\<close>.  The parser of the route set, \<open>parsePathfind\<close>, is a
  parameter.\<close>

definition formatResponse ::
  "(StoxumdPathsResponse \<Rightarrow> 'r) \<Rightarrow> PathFind \<Rightarrow> StoxumdPathsResponse \<Rightarrow> error + 'r" where
  "formatResponse parsePathfind pathfind paths =
     (if nonEmpty (alternatives paths) then Inr (parsePathfind paths)
      else if destination_currencies paths \<noteq> None
              \<and> \<not> lodash_includes (destination_currencies paths)
                    (lax_currency (dst_amount (pf_destination pathfind)))
      then Inl (NotFoundError
             (notAcceptedMessage (lax_currency (dst_amount (pf_destination pathfind)))
                (the (destination_currencies paths))))
      else if nonEmpty (source_currencies paths)
      then Inl (NotFoundError specifiedCurrenciesMessage)
      else Inl (NotFoundError fallbackMessage))"

text \<open>\<open>getPaths\<close>: schema validation (a parameter; \<open>Some e\<close> when it throws \<open>e\<close>), then
  the chain request, direct-route injection, low-funds filter, formatting.\<close>

definition getPaths ::
  "(PathFind \<Rightarrow> error option) \<Rightarrow> (Amount \<Rightarrow> StoxumdAmount) \<Rightarrow> (SourceCurrency \<Rightarrow> IssuerCurrency)
     \<Rightarrow> (PathFindRequest \<Rightarrow> error + StoxumdPathsResponse) \<Rightarrow> (string \<Rightarrow> error + string)
     \<Rightarrow> (StoxumdPathsResponse \<Rightarrow> 'r) \<Rightarrow> PathFind \<Rightarrow> call list \<times> (error + 'r)" where
  "getPaths validate toStoxumdAmount renameCounterpartyToIssuer connection getXRPBalance
       parsePathfind pathfind =
     (case validate pathfind of
        Some e \<Rightarrow> ([], Inl e)
      | None \<Rightarrow>
          (let address = src_address (pf_source pathfind);
               (calls1, r1) =
                 requestPathFind toStoxumdAmount renameCounterpartyToIssuer connection pathfind
           in case r1 of
                Inl e \<Rightarrow> (calls1, Inl e)
              | Inr paths1 \<Rightarrow>
                  (let (calls2, r2) = conditionallyAddDirectXRPPath getXRPBalance address paths1
                   in case r2 of
                        Inl e \<Rightarrow> (calls1 @ calls2, Inl e)
                      | Inr paths2 \<Rightarrow>
                          (calls1 @ calls2,
                           formatResponse parsePathfind pathfind
                             (filterSourceFundsLowPaths pathfind paths2)))))"

section \<open>Payments (\<open>transaction/payment.ts\<close>)\<close>

subsection \<open>Intents and transactions\<close>

text \<open>
  An adjustment is an object that may carry any of \<open>amount\<close>, \<open>maxAmount\<close> and
  \<open>minAmount\<close>; the code tells the variants apart by which property is defined.

  The amounts are objects, and the compiler assigns to their \<open>counterparty\<close> in place.
  One amount object may sit under several properties, of the source, of the destination
  or of both, so an adjustment holds references and the amount objects live in a store.
  The deep clone copies the objects and keeps their sharing, and leaves the caller's
  objects alone: the compiler works on a store of its own that starts as the caller's.
\<close>

type_synonym amountRef = nat

type_synonym amountStore = "amountRef \<Rightarrow> Amount"

record Adjustment =
  address :: string
  amount :: "amountRef option"
  maxAmount :: "amountRef option"
  minAmount :: "amountRef option"
  tag :: "nat option"

record 'memo Payment =
  source :: Adjustment
  destination :: Adjustment
  paths :: "string option"
  memos :: "'memo list option"
  invoiceID :: "string option"
  allowPartialPayment :: "bool option"
  noDirectStoxum :: "bool option"
  limitQuality :: "bool option"

text \<open>The flag bits of \<open>txFlags.Payment\<close>; the table is not among the sources.\<close>

record PaymentFlags =
  NoStoxumDirect :: "32 word"
  PartialPayment :: "32 word"
  LimitQuality :: "32 word"

record ('m, 'j) txJSON =
  TransactionType :: string
  Account :: string
  Destination :: string
  Amount :: StoxumdAmount
  Flags :: "32 word"
  InvoiceID :: "string option"
  SourceTag :: "nat option"
  DestinationTag :: "nat option"
  Memos :: "'m list option"
  SendMax :: "StoxumdAmount option"
  DeliverMin :: "StoxumdAmount option"
  Paths :: "'j option"

subsection \<open>Amount algebra\<close>

definition isMaxAdjustment :: "Adjustment \<Rightarrow> bool" where
  "isMaxAdjustment src = (maxAmount src \<noteq> None)"

definition isMinAdjustment :: "Adjustment \<Rightarrow> bool" where
  "isMinAdjustment dst = (minAmount dst \<noteq> None)"

text \<open>Reading \<open>x.currency\<close> where \<open>x\<close> is \<open>undefined\<close> throws.\<close>

definition currencyOf :: "amountStore \<Rightarrow> amountRef option \<Rightarrow> error + string" where
  "currencyOf store a = (case a of None \<Rightarrow> Inl TypeError | Some r \<Rightarrow> Inr (currency (store r)))"

definition isXRPToXRPPayment :: "amountStore \<Rightarrow> 'memo Payment \<Rightarrow> error + bool" where
  "isXRPToXRPPayment store payment =
     (case currencyOf store (if isMaxAdjustment (source payment)
                             then maxAmount (source payment) else amount (source payment)) of
        Inl e \<Rightarrow> Inl e
      | Inr sourceCurrency \<Rightarrow>
          (case currencyOf store (if isMinAdjustment (destination payment)
                                  then minAmount (destination payment)
                                  else amount (destination payment)) of
             Inl e \<Rightarrow> Inl e
           | Inr destinationCurrency \<Rightarrow>
               Inr (sourceCurrency = ''XRP'' \<and> destinationCurrency = ''XRP'')))"

definition isIOUWithoutCounterparty :: "amountStore \<Rightarrow> amountRef option \<Rightarrow> bool" where
  "isIOUWithoutCounterparty store a =
     (case a of None \<Rightarrow> False
      | Some r \<Rightarrow> currency (store r) \<noteq> ''XRP'' \<and> counterparty (store r) = None)"

text \<open>The keys the inner loop of \<open>applyAnyCounterpartyEncoding\<close> runs over, with
  \<open>adjustment[key]\<close>.\<close>

datatype amountKey = Key_amount | Key_minAmount | Key_maxAmount

fun getKey :: "amountKey \<Rightarrow> Adjustment \<Rightarrow> amountRef option" where
  "getKey Key_amount adjustment = amount adjustment"
| "getKey Key_minAmount adjustment = minAmount adjustment"
| "getKey Key_maxAmount adjustment = maxAmount adjustment"

text \<open>One step of the inner loop: the assignment
  \<open>adjustment[key].counterparty = adjustment.address\<close> writes to the amount object in
  the store, and so shows under every property that holds the object.\<close>

definition encodeKey :: "Adjustment \<Rightarrow> amountStore \<Rightarrow> amountKey \<Rightarrow> amountStore" where
  "encodeKey adjustment store key =
     (if isIOUWithoutCounterparty store (getKey key adjustment)
      then (case getKey key adjustment of
              None \<Rightarrow> store
            | Some r \<Rightarrow> store(r := (store r)\<lparr>counterparty := Some (address adjustment)\<rparr>))
      else store)"

definition encodeAdjustment :: "amountStore \<Rightarrow> Adjustment \<Rightarrow> amountStore" where
  "encodeAdjustment store adjustment =
     foldl (encodeKey adjustment) store [Key_amount, Key_minAmount, Key_maxAmount]"

text \<open>\<open>applyAnyCounterpartyEncoding\<close>: the outer loop, the source first.  Only amount
  objects are written to; the store after the two passes is the result.\<close>

definition applyAnyCounterpartyEncoding :: "'memo Payment \<Rightarrow> amountStore \<Rightarrow> amountStore" where
  "applyAnyCounterpartyEncoding payment store =
     foldl encodeAdjustment store [source payment, destination payment]"

definition maxXRPValue :: string where
  "maxXRPValue = ''100000000000''"

definition maxIOUValue :: string where
  "maxIOUValue = ''9999999999999999e80''"

definition createMaximalAmount :: "Amount \<Rightarrow> Amount" where
  "createMaximalAmount a =
     (let maxValue = (if currency a = ''XRP'' then maxXRPValue else maxIOUValue)
      in a\<lparr>amount_value := maxValue\<rparr>)"

text \<open>The spec's \<open>defaultCounterparty(amount, ownerAddress)\<close>, as notation for
  stating what the loop of \<open>applyAnyCounterpartyEncoding\<close> does to one amount.\<close>

abbreviation defaultCounterparty :: "string \<Rightarrow> Amount \<Rightarrow> Amount" where
  "defaultCounterparty ownerAddress a \<equiv>
     (if currency a \<noteq> ''XRP'' \<and> counterparty a = None
      then a\<lparr>counterparty := Some ownerAddress\<rparr> else a)"

text \<open>An adjustment holds an amount object when one of its three amount properties
  refers to it.\<close>

definition holdsAmount :: "Adjustment \<Rightarrow> amountRef \<Rightarrow> bool" where
  "holdsAmount adjustment r =
     (amount adjustment = Some r \<or> minAmount adjustment = Some r \<or> maxAmount adjustment = Some r)"

subsection \<open>Payment intent compiler\<close>

definition addressMismatchMessage :: string where
  "addressMismatchMessage = ''address must match payment.source.address''"

definition ambiguousAdjustmentMessage :: string where
  "ambiguousAdjustmentMessage =
     ''payment must specify either (source.maxAmount ''
       @ ''and destination.amount) or (source.amount and destination.minAmount)''"

definition partialXRPMessage :: string where
  "partialXRPMessage = ''XRP to XRP payments cannot be partial payments''"

text \<open>The two resolutions \<open>sourceAmount\<close> and \<open>destinationAmount\<close> of
  \<open>createPaymentTransaction\<close>: which amount object is meant.\<close>

definition resolveSourceAmount :: "Adjustment \<Rightarrow> amountRef option" where
  "resolveSourceAmount src = (if isMaxAdjustment src then maxAmount src else amount src)"

definition resolveDestinationAmount :: "Adjustment \<Rightarrow> amountRef option" where
  "resolveDestinationAmount dst = (if isMinAdjustment dst then minAmount dst else amount dst)"

text \<open>The encoder applied to an amount that may be \<open>undefined\<close>: it reads the
  amount's currency first, which throws on \<open>undefined\<close>.\<close>

definition encodeAmount :: "(Amount \<Rightarrow> StoxumdAmount) \<Rightarrow> Amount option \<Rightarrow> error + StoxumdAmount" where
  "encodeAmount toStoxumdAmount a =
     (case a of None \<Rightarrow> Inl TypeError | Some x \<Rightarrow> Inr (toStoxumdAmount x))"

text \<open>
  \<open>createPaymentTransaction\<close>.  Parameters stand for what the sources do not
  contain: the flag table, the amount encoder, the memo encoder \<open>convertMemo\<close> and
  \<open>JSON.parse\<close> (which may throw).  The intent comes as its object graph: the store of
  amount objects and the intent that refers into it.  After counterparty defaulting
  nothing is written any more, so \<open>destinationAmount\<close> and \<open>sourceAmount\<close> are read
  from the store as it is then.  \<open>InvoiceID\<close>, \<open>SourceTag\<close>, \<open>DestinationTag\<close> and
  \<open>Memos\<close> are each set exactly when the intent's property is defined, so the optional
  property is copied (the memos through \<open>convertMemo\<close>).
\<close>

definition createPaymentTransaction ::
  "PaymentFlags \<Rightarrow> (Amount \<Rightarrow> StoxumdAmount) \<Rightarrow> ('memo \<Rightarrow> 'm) \<Rightarrow> (string \<Rightarrow> error + 'j)
     \<Rightarrow> string \<Rightarrow> amountStore \<Rightarrow> 'memo Payment \<Rightarrow> error + ('m, 'j) txJSON" where
  "createPaymentTransaction paymentFlags toStoxumdAmount convertMemo JSON_parse addr
       storeArgument paymentArgument =
     (let payment = paymentArgument;
          store = applyAnyCounterpartyEncoding payment storeArgument
      in if addr \<noteq> address (source payment)
         then Inl (ValidationError addressMismatchMessage)
         else if (isMaxAdjustment (source payment) \<and> isMinAdjustment (destination payment))
                 \<or> (\<not> isMaxAdjustment (source payment) \<and> \<not> isMinAdjustment (destination payment))
         then Inl (ValidationError ambiguousAdjustmentMessage)
         else
           (let destinationAmount =
                  map_option store (resolveDestinationAmount (destination payment));
                sourceAmount = map_option store (resolveSourceAmount (source payment));
                deliveryAmount =
                  (if isMinAdjustment (destination payment)
                   then (case isXRPToXRPPayment store payment of
                           Inl e \<Rightarrow> Inl e
                         | Inr xrp \<Rightarrow>
                             if \<not> xrp
                             then (case destinationAmount of
                                     None \<Rightarrow> Inl TypeError
                                   | Some d \<Rightarrow> Inr (Some (createMaximalAmount d)))
                             else Inr destinationAmount)
                   else Inr destinationAmount)
            in case deliveryAmount of
                 Inl e \<Rightarrow> Inl e
               | Inr amt \<Rightarrow>
             (case encodeAmount toStoxumdAmount amt of
                 Inl e \<Rightarrow> Inl e
               | Inr encoded \<Rightarrow>
             (let txJSON0 =
                    \<lparr>TransactionType = ''Payment'',
                     Account = address (source payment),
                     Destination = address (destination payment),
                     Amount = encoded,
                     Flags = 0,
                     InvoiceID = invoiceID payment,
                     SourceTag = tag (source payment),
                     DestinationTag = tag (destination payment),
                     Memos = map_option (map convertMemo) (memos payment),
                     SendMax = None, DeliverMin = None, Paths = None\<rparr>;
                  txJSON1 = (if noDirectStoxum payment = Some True
                             then txJSON0\<lparr>Flags := Flags txJSON0 OR NoStoxumDirect paymentFlags\<rparr>
                             else txJSON0);
                  txJSON2 = (if limitQuality payment = Some True
                             then txJSON1\<lparr>Flags := Flags txJSON1 OR LimitQuality paymentFlags\<rparr>
                             else txJSON1)
              in case isXRPToXRPPayment store payment of
                   Inl e \<Rightarrow> Inl e
                 | Inr xrp \<Rightarrow>
                     if \<not> xrp then
                       (let txJSON3 =
                              (if allowPartialPayment payment = Some True
                                  \<or> isMinAdjustment (destination payment)
                               then txJSON2\<lparr>Flags := Flags txJSON2 OR PartialPayment paymentFlags\<rparr>
                               else txJSON2)
                        in case encodeAmount toStoxumdAmount sourceAmount of
                             Inl e \<Rightarrow> Inl e
                           | Inr sendMax \<Rightarrow>
                         (case (if isMinAdjustment (destination payment)
                                then (case encodeAmount toStoxumdAmount destinationAmount of
                                        Inl e \<Rightarrow> Inl e
                                      | Inr deliverMin \<Rightarrow>
                                          Inr (txJSON3\<lparr>SendMax := Some sendMax,
                                                       DeliverMin := Some deliverMin\<rparr>))
                                else Inr (txJSON3\<lparr>SendMax := Some sendMax\<rparr>)) of
                             Inl e \<Rightarrow> Inl e
                           | Inr txJSON4 \<Rightarrow>
                               (case paths payment of
                                  None \<Rightarrow> Inr txJSON4
                                | Some p \<Rightarrow>
                                    (case JSON_parse p of
                                       Inl e \<Rightarrow> Inl e
                                     | Inr parsed \<Rightarrow> Inr (txJSON4\<lparr>Paths := Some parsed\<rparr>)))))
                     else if allowPartialPayment payment = Some True
                     then Inl (ValidationError partialXRPMessage)
                     else Inr txJSON2))))"

text \<open>
  \<open>preparePayment\<close>: schema validation (a parameter; \<open>Some e\<close> when it throws),
  compilation, and then the preparation pipeline \<open>prepareTransaction\<close>, which is the
  only step that goes to the network.
\<close>

definition preparePayment ::
  "(string \<Rightarrow> amountStore \<Rightarrow> 'memo Payment \<Rightarrow> 'i \<Rightarrow> error option)
     \<Rightarrow> (('m, 'j) txJSON \<Rightarrow> 'i \<Rightarrow> 'p)
     \<Rightarrow> PaymentFlags \<Rightarrow> (Amount \<Rightarrow> StoxumdAmount) \<Rightarrow> ('memo \<Rightarrow> 'm) \<Rightarrow> (string \<Rightarrow> error + 'j)
     \<Rightarrow> string \<Rightarrow> amountStore \<Rightarrow> 'memo Payment \<Rightarrow> 'i \<Rightarrow> error + 'p" where
  "preparePayment validate prepareTransaction paymentFlags toStoxumdAmount convertMemo JSON_parse
       addr store payment instructions =
     (case validate addr store payment instructions of
        Some e \<Rightarrow> Inl e
      | None \<Rightarrow>
          (case createPaymentTransaction paymentFlags toStoxumdAmount convertMemo JSON_parse
                  addr store payment of
             Inl e \<Rightarrow> Inl e
           | Inr txJSON \<Rightarrow> Inr (prepareTransaction txJSON instructions)))"

section \<open>Example inputs\<close>

subsection \<open>Stand-ins for the collaborators\<close>

text \<open>
  Concrete values for the parameters, used where a property is evaluated at an input.
  \<open>idEncoder\<close> encodes a native amount as a plain string and an issued one as an
  object; it keeps the decimal string as it is, where the library's encoder converts the
  native unit.  The validators accept, the connection answers every request with one
  fixed response, the balance lookup answers with one fixed balance, the memo encoder and
  the path parser keep their argument.  \<open>exampleFlags\<close> holds the ledger protocol's
  payment flag bits.
\<close>

definition idEncoder :: "Amount \<Rightarrow> StoxumdAmount" where
  "idEncoder a =
     (if currency a = ''XRP'' then Drops (amount_value a)
      else Issued \<lparr>iou_currency = currency a, iou_issuer = counterparty a,
                    iou_value = amount_value a\<rparr>)"

definition renameExample :: "SourceCurrency \<Rightarrow> IssuerCurrency" where
  "renameExample c = \<lparr>ic_currency = sc_currency c, ic_issuer = sc_counterparty c\<rparr>"

definition noValidationError :: "PathFind \<Rightarrow> error option" where
  "noValidationError q = None"

definition answerWith :: "StoxumdPathsResponse \<Rightarrow> PathFindRequest \<Rightarrow> error + StoxumdPathsResponse" where
  "answerWith r request = Inr r"

definition balanceOf :: "string \<Rightarrow> string \<Rightarrow> error + string" where
  "balanceOf b addr = Inr b"

definition exampleFlags :: PaymentFlags where
  "exampleFlags = \<lparr>NoStoxumDirect = 0x00010000, PartialPayment = 0x00020000,
                    LimitQuality = 0x00040000\<rparr>"

definition keepMemo :: "string \<Rightarrow> string" where
  "keepMemo m = m"

definition parsePaths :: "string \<Rightarrow> error + string" where
  "parsePaths p = Inr p"

definition noPaymentValidationError ::
  "string \<Rightarrow> amountStore \<Rightarrow> string Payment \<Rightarrow> unit \<Rightarrow> error option" where
  "noPaymentValidationError addr store payment instructions = None"

definition prepareExample :: "(string, string) txJSON \<Rightarrow> unit \<Rightarrow> (string, string) txJSON" where
  "prepareExample tx instructions = tx"

subsection \<open>Route queries and responses\<close>

text \<open>
  \<open>fixedSpendQuery\<close> fixes the source amount and leaves the destination amount's value
  unset; \<open>bothSetQuery\<close> sets both; \<open>receiveQuery\<close> fixes the destination amount
  only, and \<open>receiveRequest\<close> is the request built from it.
\<close>

definition fixedSpendQuery :: "string \<Rightarrow> string \<Rightarrow> PathFind" where
  "fixedSpendQuery cur v =
     \<lparr>pf_source = \<lparr>src_address = ''rSource'',
                    src_amount = Some \<lparr>currency = cur, amount_value = v, counterparty = None\<rparr>,
                    src_currencies = None\<rparr>,
      pf_destination = \<lparr>dst_address = ''rDest'',
                         dst_amount = \<lparr>lax_currency = ''EUR'', lax_value = None,
                                       lax_counterparty = None\<rparr>\<rparr>\<rparr>"

definition bothSetQuery :: PathFind where
  "bothSetQuery =
     \<lparr>pf_source = \<lparr>src_address = ''rSource'',
                    src_amount = Some \<lparr>currency = ''USD'', amount_value = ''5'', counterparty = None\<rparr>,
                    src_currencies = None\<rparr>,
      pf_destination = \<lparr>dst_address = ''rDest'',
                         dst_amount = \<lparr>lax_currency = ''EUR'', lax_value = Some ''7'',
                                       lax_counterparty = None\<rparr>\<rparr>\<rparr>"

definition receiveQuery :: "string \<Rightarrow> SourceCurrency list option \<Rightarrow> PathFind" where
  "receiveQuery cur cs =
     \<lparr>pf_source = \<lparr>src_address = ''rSource'', src_amount = None, src_currencies = cs\<rparr>,
      pf_destination = \<lparr>dst_address = ''rDest'',
                         dst_amount = \<lparr>lax_currency = cur, lax_value = Some ''7'',
                                       lax_counterparty = None\<rparr>\<rparr>\<rparr>"

definition receiveRequest :: "string \<Rightarrow> PathFindRequest" where
  "receiveRequest cur =
     \<lparr>command = ''ripple_path_find'',
      req_source_account = ''rSource'',
      req_destination_account = ''rDest'',
      req_destination_amount =
        Issued \<lparr>iou_currency = cur, iou_issuer = Some ''rDest'', iou_value = ''7''\<rparr>,
      req_source_currencies = None,
      send_max = None\<rparr>"

definition nativeAlternative :: "string \<Rightarrow> Alternative" where
  "nativeAlternative drops = \<lparr>paths_computed = [], source_amount = Some (Drops drops)\<rparr>"

definition issuedAlternative :: "string \<Rightarrow> string \<Rightarrow> Alternative" where
  "issuedAlternative cur v =
     \<lparr>paths_computed = [],
      source_amount =
        Some (Issued \<lparr>iou_currency = cur, iou_issuer = Some ''rIssuer'', iou_value = v\<rparr>)\<rparr>"

definition responseWith :: "Alternative list \<Rightarrow> StoxumdPathsResponse" where
  "responseWith alts =
     \<lparr>alternatives = Some alts,
      destination_account = ''rDest'',
      destination_amount =
        Some (Issued \<lparr>iou_currency = ''EUR'', iou_issuer = Some ''rDest'', iou_value = ''-1''\<rparr>),
      destination_currencies = Some [''EUR'', ''XRP''],
      source_account = ''rSource'',
      source_currencies = None\<rparr>"

definition emptyResponse :: "string list option \<Rightarrow> StoxumdPathsResponse" where
  "emptyResponse accepted =
     \<lparr>alternatives = Some [],
      destination_account = ''rDest'',
      destination_amount = None,
      destination_currencies = accepted,
      source_account = ''rSource'',
      source_currencies = None\<rparr>"

definition issuedDestinationResponse :: StoxumdPathsResponse where
  "issuedDestinationResponse =
     \<lparr>alternatives = Some [],
      destination_account = ''rDest'',
      destination_amount =
        Some (Issued \<lparr>iou_currency = ''USD'', iou_issuer = Some ''rDest'', iou_value = ''1''\<rparr>),
      destination_currencies = Some [''USD'', ''XRP''],
      source_account = ''rSource'',
      source_currencies = None\<rparr>"

definition noListResponse :: StoxumdPathsResponse where
  "noListResponse =
     \<lparr>alternatives = None,
      destination_account = ''rDest'',
      destination_amount = Some (Drops ''10''),
      destination_currencies = Some [''USD'', ''XRP''],
      source_account = ''rSource'',
      source_currencies = None\<rparr>"

definition nativeDestinationResponse :: StoxumdPathsResponse where
  "nativeDestinationResponse =
     \<lparr>alternatives = Some [issuedAlternative ''USD'' ''3''],
      destination_account = ''rDest'',
      destination_amount = Some (Drops ''10''),
      destination_currencies = Some [''USD'', ''XRP''],
      source_account = ''rSource'',
      source_currencies = None\<rparr>"

subsection \<open>Payment intents\<close>

text \<open>
  A store is given by the list of its amount objects: reference \<open>n\<close> is the \<open>n\<close>-th
  of them.  \<open>samplePayment\<close> on \<open>sampleStore\<close> is the intent of
  \<open>docs/samples/payment.js\<close>: the source capped at 0.01 in the native currency, the
  destination fixed at the same amount, as two objects.  \<open>flooredPayment\<close> spends a
  fixed 5 USD for at least 3 EUR.  In \<open>sharedPayment\<close> the source's \<open>maxAmount\<close> and
  the destination's \<open>amount\<close> are one and the same object.
\<close>

definition native :: "string \<Rightarrow> Amount" where
  "native v = \<lparr>currency = ''XRP'', amount_value = v, counterparty = None\<rparr>"

definition issued :: "string \<Rightarrow> string \<Rightarrow> Amount" where
  "issued cur v = \<lparr>currency = cur, amount_value = v, counterparty = None\<rparr>"

definition storeOf :: "Amount list \<Rightarrow> amountStore" where
  "storeOf objects r = (if r < length objects then objects ! r else native ''0'')"

definition fixedAdjustment :: "string \<Rightarrow> amountRef \<Rightarrow> Adjustment" where
  "fixedAdjustment addr r =
     \<lparr>address = addr, amount = Some r, maxAmount = None, minAmount = None, tag = None\<rparr>"

definition cappedAdjustment :: "string \<Rightarrow> amountRef \<Rightarrow> Adjustment" where
  "cappedAdjustment addr r =
     \<lparr>address = addr, amount = None, maxAmount = Some r, minAmount = None, tag = None\<rparr>"

definition flooredAdjustment :: "string \<Rightarrow> amountRef \<Rightarrow> Adjustment" where
  "flooredAdjustment addr r =
     \<lparr>address = addr, amount = None, maxAmount = None, minAmount = Some r, tag = None\<rparr>"

definition paymentOf :: "Adjustment \<Rightarrow> Adjustment \<Rightarrow> bool option \<Rightarrow> string Payment" where
  "paymentOf src dst partial =
     \<lparr>source = src, destination = dst, paths = None, memos = None, invoiceID = None,
      allowPartialPayment = partial, noDirectStoxum = None, limitQuality = None\<rparr>"

definition sampleStore :: amountStore where
  "sampleStore = storeOf [native ''0.01'', native ''0.01'']"

definition samplePayment :: "string Payment" where
  "samplePayment =
     paymentOf (cappedAdjustment ''rSource'' 0) (fixedAdjustment ''rDest'' 1) None"

definition partialPayment :: "string Payment" where
  "partialPayment =
     paymentOf (cappedAdjustment ''rSource'' 0) (fixedAdjustment ''rDest'' 1) (Some True)"

definition bothPayment :: "string Payment" where
  "bothPayment =
     paymentOf (cappedAdjustment ''rSource'' 0) (flooredAdjustment ''rDest'' 1) None"

definition plainTransaction :: "StoxumdAmount \<Rightarrow> (string, string) txJSON" where
  "plainTransaction a =
     \<lparr>TransactionType = ''Payment'', Account = ''rSource'', Destination = ''rDest'',
      Amount = a, Flags = 0, InvoiceID = None, SourceTag = None, DestinationTag = None,
      Memos = None, SendMax = None, DeliverMin = None, Paths = None\<rparr>"

definition flooredStore :: amountStore where
  "flooredStore = storeOf [issued ''USD'' ''5'', issued ''EUR'' ''3'']"

definition flooredPayment :: "string Payment" where
  "flooredPayment =
     paymentOf (fixedAdjustment ''rSource'' 0) (flooredAdjustment ''rDest'' 1) None"

definition flooredTransaction :: "(string, string) txJSON" where
  "flooredTransaction =
     \<lparr>TransactionType = ''Payment'', Account = ''rSource'', Destination = ''rDest'',
      Amount = Issued \<lparr>iou_currency = ''EUR'', iou_issuer = Some ''rDest'',
                       iou_value = ''9999999999999999e80''\<rparr>,
      Flags = 0x00020000, InvoiceID = None, SourceTag = None, DestinationTag = None,
      Memos = None,
      SendMax = Some (Issued \<lparr>iou_currency = ''USD'', iou_issuer = Some ''rSource'',
                               iou_value = ''5''\<rparr>),
      DeliverMin = Some (Issued \<lparr>iou_currency = ''EUR'', iou_issuer = Some ''rDest'',
                                  iou_value = ''3''\<rparr>),
      Paths = None\<rparr>"

definition sharedStore :: amountStore where
  "sharedStore = storeOf [issued ''USD'' ''5'']"

definition sharedPayment :: "string Payment" where
  "sharedPayment =
     paymentOf (cappedAdjustment ''rSource'' 0) (fixedAdjustment ''rDest'' 0) None"

section \<open>Properties of the response processor\<close>

lemmas BigNumber_eval =
  BigNumber_def stripSign_def isDigit_def exponentPart_def scale10_def digitsValue_def
  digitValue_def

lemmas example_defs =
  exampleFlags_def keepMemo_def parsePaths_def idEncoder_def native_def issued_def
  storeOf_def fixedAdjustment_def cappedAdjustment_def flooredAdjustment_def paymentOf_def
  sampleStore_def samplePayment_def partialPayment_def bothPayment_def plainTransaction_def
  flooredStore_def flooredPayment_def flooredTransaction_def sharedStore_def sharedPayment_def

lemmas payment_eval =
  createPaymentTransaction_def applyAnyCounterpartyEncoding_def encodeAdjustment_def
  encodeKey_def isIOUWithoutCounterparty_def isMaxAdjustment_def isMinAdjustment_def
  isXRPToXRPPayment_def currencyOf_def resolveSourceAmount_def resolveDestinationAmount_def
  encodeAmount_def createMaximalAmount_def maxXRPValue_def maxIOUValue_def

subsection \<open>Low-funds filtering\<close>

lemma keepAlternative_plain:
  "source_amount alt = None \<or> (\<exists>s. source_amount alt = Some (Drops s))
     \<Longrightarrow> \<not> keepAlternative query alt"
  by (auto simp: keepAlternative_def)

text \<open>
  Claim C10.  Whenever low-funds filtering applies (the query fixed a source amount and
  left the destination amount's value unset), an alternative of the response whose
  \<open>source_amount\<close> is absent or is a plain string is not in the filtered list, whatever
  the string's numeric value; the filtered list holds alternatives of the response only.
\<close>

theorem lowfunds_discards_plain_and_absent:
  assumes "src_amount (pf_source query) \<noteq> None"
    and "lax_value (dst_amount (pf_destination query)) = None"
    and "alternatives resp = Some alts"
    and "source_amount alt = None \<or> (\<exists>s. source_amount alt = Some (Drops s))"
  shows "\<exists>kept. alternatives (filterSourceFundsLowPaths query resp) = Some kept
           \<and> alt \<notin> set kept \<and> set kept \<subseteq> set alts"
  using assms by (auto simp: filterSourceFundsLowPaths_def keepAlternative_plain)

theorem lowfunds_discards_plain_and_absent_witness:
  "src_amount (pf_source (fixedSpendQuery ''USD'' ''5'')) \<noteq> None
   \<and> lax_value (dst_amount (pf_destination (fixedSpendQuery ''USD'' ''5''))) = None
   \<and> alternatives (responseWith [nativeAlternative ''5'', issuedAlternative ''USD'' ''5.0'']) =
        Some [nativeAlternative ''5'', issuedAlternative ''USD'' ''5.0'']
   \<and> source_amount (nativeAlternative ''5'') = Some (Drops ''5'')
   \<and> (\<exists>kept. alternatives (filterSourceFundsLowPaths (fixedSpendQuery ''USD'' ''5'')
                  (responseWith [nativeAlternative ''5'', issuedAlternative ''USD'' ''5.0'']))
                = Some kept
          \<and> nativeAlternative ''5'' \<notin> set kept
          \<and> set kept \<subseteq> set [nativeAlternative ''5'', issuedAlternative ''USD'' ''5.0''])"
proof -
  have h1: "src_amount (pf_source (fixedSpendQuery ''USD'' ''5'')) \<noteq> None"
    by (simp add: fixedSpendQuery_def)
  have h2: "lax_value (dst_amount (pf_destination (fixedSpendQuery ''USD'' ''5''))) = None"
    by (simp add: fixedSpendQuery_def)
  have h3: "alternatives (responseWith [nativeAlternative ''5'', issuedAlternative ''USD'' ''5.0''])
              = Some [nativeAlternative ''5'', issuedAlternative ''USD'' ''5.0'']"
    by (simp add: responseWith_def)
  have h4: "source_amount (nativeAlternative ''5'') = None
              \<or> (\<exists>s. source_amount (nativeAlternative ''5'') = Some (Drops s))"
    by (simp add: nativeAlternative_def)
  have h5: "source_amount (nativeAlternative ''5'') = Some (Drops ''5'')"
    by (simp add: nativeAlternative_def)
  from lowfunds_discards_plain_and_absent [OF h1 h2 h3 h4] h1 h2 h3 h5
  show ?thesis by blast
qed

text \<open>What does hold of the filter: it changes nothing when the destination value is
  set, and among structured alternatives it keeps exactly those whose value equals the
  query's as decimals.\<close>

lemma lowfunds_noop_when_destination_value_set:
  assumes "lax_value (dst_amount (pf_destination query)) \<noteq> None"
  shows "filterSourceFundsLowPaths query resp = resp"
  using assms by (auto simp: filterSourceFundsLowPaths_def)

lemma lowfunds_keeps_equal_structured:
  assumes "src_amount (pf_source query) = Some a"
    and "lax_value (dst_amount (pf_destination query)) = None"
    and "alternatives resp = Some alts"
    and "source_amount alt = Some (Issued i)"
  shows "alt \<in> set (the (alternatives (filterSourceFundsLowPaths query resp)))
           \<longleftrightarrow> alt \<in> set alts
               \<and> bn_eq (BigNumber (iou_value i)) (BigNumber (amount_value a))"
  using assms by (auto simp: filterSourceFundsLowPaths_def keepAlternative_def)

text \<open>
  Claim C1, at an input where the code departs from it.  The query fixes a source amount
  of 5 in the native currency and leaves the destination value unset.  The response
  offers two alternatives whose source amounts are plain strings, \<open>5\<close> and \<open>5000000\<close>.
  The first is numerically equal to the query's value, yet the filter removes both: the
  conjunct \<open>typeof alt.source_amount !== 'string'\<close> is false for every plain string.
\<close>

theorem lowfunds_native_alternatives_lost:
  "bn_eq (BigNumber ''5'')
     (BigNumber (amount_value (the (src_amount (pf_source (fixedSpendQuery ''XRP'' ''5''))))))
   \<and> filterSourceFundsLowPaths (fixedSpendQuery ''XRP'' ''5'')
        (responseWith [nativeAlternative ''5'', nativeAlternative ''5000000''])
      = responseWith []"
  by (simp add: filterSourceFundsLowPaths_def keepAlternative_def fixedSpendQuery_def
      responseWith_def nativeAlternative_def bn_eq_def BigNumber_eval)

subsection \<open>Direct-route injection\<close>

text \<open>
  Claim C2 as stated fails, at two inputs.  In both the destination lists the native
  currency and the source's balance is at least the destination amount's value.  In the
  first the destination amount is an issued-currency amount, so \<open>isStoxumdIOUAmount\<close>
  returns the response unchanged: no alternative is prepended and no balance lookup is
  made.  In the second the response has no alternatives list, so there is nothing to
  prepend to and \<open>unshift\<close> throws.
\<close>

theorem direct_route_not_injected_for_issued_destination:
  "lodash_includes (destination_currencies issuedDestinationResponse) ''XRP''
   \<and> destination_amount issuedDestinationResponse =
       Some (Issued \<lparr>iou_currency = ''USD'', iou_issuer = Some ''rDest'', iou_value = ''1''\<rparr>)
   \<and> greaterThanOrEqualTo (BigNumber ''100'') (BigNumber ''1'')
   \<and> conditionallyAddDirectXRPPath (balanceOf ''100'') ''rSource'' issuedDestinationResponse
       = ([], Inr issuedDestinationResponse)
   \<and> lodash_includes (destination_currencies noListResponse) ''XRP''
   \<and> destination_amount noListResponse = Some (Drops ''10'')
   \<and> greaterThanOrEqualTo (BigNumber ''20'') (BigNumber ''10'')
   \<and> conditionallyAddDirectXRPPath (balanceOf ''20'') ''rSource'' noListResponse
       = ([GetXRPBalance ''rSource''], Inl TypeError)"
  by (simp add: conditionallyAddDirectXRPPath_def addDirectXrpPath_def isStoxumdIOUAmount_def
      lodash_includes_def issuedDestinationResponse_def noListResponse_def balanceOf_def
      greaterThanOrEqualTo_def BigNumber_eval)

lemma conditionallyAdd_calls:
  "fst (conditionallyAddDirectXRPPath getBalance addr resp) =
     (if lodash_includes (destination_currencies resp) ''XRP''
         \<and> \<not> isStoxumdIOUAmount (destination_amount resp)
      then [GetXRPBalance addr] else [])"
  by (simp add: conditionallyAddDirectXRPPath_def)

lemma plain_not_issued:
  "destination_amount resp = Some (Drops s) \<Longrightarrow> \<not> isStoxumdIOUAmount (destination_amount resp)"
  by (simp add: isStoxumdIOUAmount_def)

lemma conditionallyAdd_unfold:
  "snd (conditionallyAddDirectXRPPath getBalance addr resp) =
     (if lodash_includes (destination_currencies resp) ''XRP''
         \<and> \<not> isStoxumdIOUAmount (destination_amount resp)
      then (case getBalance addr of
              Inl e \<Rightarrow> Inl e
            | Inr balance \<Rightarrow>
                (case destination_amount resp of
                   Some (Drops s) \<Rightarrow>
                     if greaterThanOrEqualTo (BigNumber balance) (BigNumber s)
                     then (case alternatives resp of
                             None \<Rightarrow> Inl TypeError
                           | Some alts \<Rightarrow>
                               Inr (resp\<lparr>alternatives :=
                                 Some (\<lparr>paths_computed = [],
                                         source_amount = destination_amount resp\<rparr> # alts)\<rparr>))
                     else Inr resp
                 | _ \<Rightarrow> Inl BigNumberError))
      else Inr resp)"
  by (simp add: conditionallyAddDirectXRPPath_def addDirectXrpPath_def split: sum.splits)

lemma prepended_differs:
  "alternatives resp = Some alts \<Longrightarrow> resp\<lparr>alternatives := Some (x # alts)\<rparr> \<noteq> resp"
proof
  assume a: "alternatives resp = Some alts" and e: "resp\<lparr>alternatives := Some (x # alts)\<rparr> = resp"
  from e have "alternatives (resp\<lparr>alternatives := Some (x # alts)\<rparr>) = alternatives resp"
    by simp
  with a show False by simp
qed

text \<open>
  Claim C2, amended.  The balance lookup is made exactly when the destination lists the
  native currency and the destination amount is not an issued-currency amount; so never
  when the destination does not list the native currency, and never for an
  issued-currency destination amount.  The result is the response with exactly one
  zero-hop alternative (empty computed path, source amount equal to the destination
  amount) prepended to its alternatives if and only if the response has an alternatives
  list, the destination amount is a plain string (the native encoding), the destination
  lists the native currency, and the lookup gives a balance that is at least the
  destination amount as decimals.  Every response that is returned is either that one or
  the response as it came: nothing else is ever prepended.
\<close>

theorem direct_route_injection:
  "fst (conditionallyAddDirectXRPPath getBalance addr resp) =
     (if lodash_includes (destination_currencies resp) ''XRP''
         \<and> \<not> isStoxumdIOUAmount (destination_amount resp)
      then [GetXRPBalance addr] else [])
   \<and> ((\<exists>alts. alternatives resp = Some alts
          \<and> snd (conditionallyAddDirectXRPPath getBalance addr resp)
              = Inr (resp\<lparr>alternatives :=
                  Some (\<lparr>paths_computed = [], source_amount = destination_amount resp\<rparr>
                        # alts)\<rparr>))
        \<longleftrightarrow>
        (alternatives resp \<noteq> None
          \<and> lodash_includes (destination_currencies resp) ''XRP''
          \<and> (\<exists>s balance. destination_amount resp = Some (Drops s)
                \<and> getBalance addr = Inr balance
                \<and> greaterThanOrEqualTo (BigNumber balance) (BigNumber s))))
   \<and> (\<forall>r. snd (conditionallyAddDirectXRPPath getBalance addr resp) = Inr r \<longrightarrow>
          r = resp
          \<or> (\<exists>alts. alternatives resp = Some alts
                \<and> r = resp\<lparr>alternatives :=
                      Some (\<lparr>paths_computed = [], source_amount = destination_amount resp\<rparr>
                            # alts)\<rparr>))"
proof (intro conjI)
  show "fst (conditionallyAddDirectXRPPath getBalance addr resp) =
     (if lodash_includes (destination_currencies resp) ''XRP''
         \<and> \<not> isStoxumdIOUAmount (destination_amount resp)
      then [GetXRPBalance addr] else [])"
    by (rule conditionallyAdd_calls)
next
  show "(\<exists>alts. alternatives resp = Some alts
          \<and> snd (conditionallyAddDirectXRPPath getBalance addr resp)
              = Inr (resp\<lparr>alternatives :=
                  Some (\<lparr>paths_computed = [], source_amount = destination_amount resp\<rparr>
                        # alts)\<rparr>))
        \<longleftrightarrow>
        (alternatives resp \<noteq> None
          \<and> lodash_includes (destination_currencies resp) ''XRP''
          \<and> (\<exists>s balance. destination_amount resp = Some (Drops s)
                \<and> getBalance addr = Inr balance
                \<and> greaterThanOrEqualTo (BigNumber balance) (BigNumber s)))"
    (is "?prepended \<longleftrightarrow> ?condition")
  proof
    assume ?prepended
    then obtain alts where a: "alternatives resp = Some alts"
      and r: "snd (conditionallyAddDirectXRPPath getBalance addr resp)
              = Inr (resp\<lparr>alternatives :=
                  Some (\<lparr>paths_computed = [], source_amount = destination_amount resp\<rparr>
                        # alts)\<rparr>)"
      by blast
    from r prepended_differs [OF a] prepended_differs [OF a, THEN not_sym] show ?condition
      unfolding conditionallyAdd_unfold
      by (auto simp: a split: if_splits sum.splits option.splits StoxumdAmount.splits)
  next
    assume c: ?condition
    then obtain alts s balance where a: "alternatives resp = Some alts"
      and d: "destination_amount resp = Some (Drops s)"
      and b: "getBalance addr = Inr balance"
      and g: "greaterThanOrEqualTo (BigNumber balance) (BigNumber s)"
      by auto
    from c have i: "lodash_includes (destination_currencies resp) ''XRP''" by blast
    show ?prepended
      unfolding conditionallyAdd_unfold
      using a d b g i plain_not_issued [OF d] by simp
  qed
next
  show "\<forall>r. snd (conditionallyAddDirectXRPPath getBalance addr resp) = Inr r \<longrightarrow>
          r = resp
          \<or> (\<exists>alts. alternatives resp = Some alts
                \<and> r = resp\<lparr>alternatives :=
                      Some (\<lparr>paths_computed = [], source_amount = destination_amount resp\<rparr>
                            # alts)\<rparr>)"
    unfolding conditionallyAdd_unfold
    by (auto split: if_splits sum.splits option.splits StoxumdAmount.splits)
qed

theorem direct_route_injection_witness:
  "fst (conditionallyAddDirectXRPPath (balanceOf ''20'') ''rSource'' nativeDestinationResponse)
       = [GetXRPBalance ''rSource'']
   \<and> snd (conditionallyAddDirectXRPPath (balanceOf ''20'') ''rSource'' nativeDestinationResponse)
       = Inr (nativeDestinationResponse\<lparr>alternatives :=
           Some [\<lparr>paths_computed = [], source_amount = Some (Drops ''10'')\<rparr>,
                 issuedAlternative ''USD'' ''3'']\<rparr>)
   \<and> snd (conditionallyAddDirectXRPPath (balanceOf ''5'') ''rSource'' nativeDestinationResponse)
       = Inr nativeDestinationResponse"
proof -
  have h1: "alternatives nativeDestinationResponse = Some [issuedAlternative ''USD'' ''3'']"
    and c1: "lodash_includes (destination_currencies nativeDestinationResponse) ''XRP''"
    and c4: "destination_amount nativeDestinationResponse = Some (Drops ''10'')"
    by (simp_all add: nativeDestinationResponse_def lodash_includes_def)
  have h2: "balanceOf ''20'' ''rSource'' = Inr ''20''"
    by (simp add: balanceOf_def)
  have c3: "greaterThanOrEqualTo (BigNumber ''20'') (BigNumber ''10'')"
    by (simp add: greaterThanOrEqualTo_def BigNumber_eval)
  have low: "snd (conditionallyAddDirectXRPPath (balanceOf ''5'') ''rSource''
                    nativeDestinationResponse) = Inr nativeDestinationResponse"
    by (simp add: conditionallyAddDirectXRPPath_def addDirectXrpPath_def
        nativeDestinationResponse_def lodash_includes_def isStoxumdIOUAmount_def balanceOf_def
        greaterThanOrEqualTo_def BigNumber_eval)
  note inst = direct_route_injection
         [of "balanceOf ''20''" "''rSource''" nativeDestinationResponse]
  from inst plain_not_issued [OF c4] c1
  have calls: "fst (conditionallyAddDirectXRPPath (balanceOf ''20'') ''rSource''
                      nativeDestinationResponse) = [GetXRPBalance ''rSource'']"
    by simp
  from inst h1 h2 c1 c3 c4
  have "\<exists>alts. alternatives nativeDestinationResponse = Some alts
          \<and> snd (conditionallyAddDirectXRPPath (balanceOf ''20'') ''rSource''
                   nativeDestinationResponse)
              = Inr (nativeDestinationResponse\<lparr>alternatives :=
                  Some (\<lparr>paths_computed = [],
                          source_amount = destination_amount nativeDestinationResponse\<rparr>
                        # alts)\<rparr>)"
    by blast
  with h1 c4
  have result: "snd (conditionallyAddDirectXRPPath (balanceOf ''20'') ''rSource''
                       nativeDestinationResponse)
       = Inr (nativeDestinationResponse\<lparr>alternatives :=
           Some [\<lparr>paths_computed = [], source_amount = Some (Drops ''10'')\<rparr>,
                 issuedAlternative ''USD'' ''3'']\<rparr>)"
    by auto
  from calls result low show ?thesis by blast
qed

subsection \<open>Failure diagnosis\<close>

lemma buildRequest_source_currencies:
  "buildRequest enc rename query = Inr request
     \<Longrightarrow> nonEmpty (req_source_currencies request) = nonEmpty (src_currencies (pf_source query))"
  by (auto simp: buildRequest_def Let_def nonEmpty_def split: option.splits if_splits)

lemma addParams_currencies:
  "source_currencies (addParams request raw) = req_source_currencies request"
  "destination_currencies (addParams request raw) = destination_currencies raw"
  by (simp_all add: addParams_def)

lemma conditionallyAdd_currencies:
  assumes "conditionallyAddDirectXRPPath getBalance addr resp = (calls, Inr injected)"
  shows "source_currencies injected = source_currencies resp"
    and "destination_currencies injected = destination_currencies resp"
  using assms
  by (auto simp: conditionallyAddDirectXRPPath_def addDirectXrpPath_def Let_def
      split: if_splits sum.splits option.splits StoxumdAmount.splits)

lemma filter_currencies:
  "source_currencies (filterSourceFundsLowPaths query resp) = source_currencies resp"
  "destination_currencies (filterSourceFundsLowPaths query resp) = destination_currencies resp"
  by (simp_all add: filterSourceFundsLowPaths_def)

lemma formatResponse_no_alternatives:
  assumes "\<not> nonEmpty (alternatives resp)"
  shows "formatResponse parse query resp =
     Inl (NotFoundError
       (if destination_currencies resp \<noteq> None
           \<and> lax_currency (dst_amount (pf_destination query))
                \<notin> set (the (destination_currencies resp))
        then notAcceptedMessage (lax_currency (dst_amount (pf_destination query)))
               (the (destination_currencies resp))
        else if nonEmpty (source_currencies resp) then specifiedCurrenciesMessage
        else fallbackMessage))"
  using assms by (auto simp: formatResponse_def lodash_includes_def)

lemma messages_distinct:
  "notAcceptedMessage cur accepted \<noteq> specifiedCurrenciesMessage"
  "notAcceptedMessage cur accepted \<noteq> fallbackMessage"
  "specifiedCurrenciesMessage \<noteq> fallbackMessage"
  by (simp_all add: notAcceptedMessage_def specifiedCurrenciesMessage_def fallbackMessage_def)

text \<open>
  Claim C3.  Take a route query that passes validation and whose request is answered,
  and let the response, after direct-route injection and low-funds filtering, have no
  alternatives.  Then \<open>getPaths\<close> fails with a not-found error, diagnosed in this
  order: if the response carries the destination's accepted currencies and the requested
  currency is not among them, the message names the currency and enumerates the accepted
  ones; otherwise, if the query named one or more source currencies, it is the message
  that speaks of the specified source currencies and says that there may be insufficient
  liquidity in the network; otherwise it is the message that asks to ensure that the
  source account has sufficient funds.  The three messages differ from each other.  In
  particular the result is an error, never an empty route set.
\<close>

theorem not_found_diagnosis:
  assumes "validate query = None"
    and "buildRequest enc rename query = Inr request"
    and "connection request = Inr raw"
    and "conditionallyAddDirectXRPPath getBalance (src_address (pf_source query))
           (addParams request raw) = (calls, Inr injected)"
    and "\<not> nonEmpty (alternatives (filterSourceFundsLowPaths query injected))"
  shows "getPaths validate enc rename connection getBalance parse query =
           (Request request # calls,
            Inl (NotFoundError
              (if destination_currencies raw \<noteq> None
                  \<and> lax_currency (dst_amount (pf_destination query))
                       \<notin> set (the (destination_currencies raw))
               then ''No paths found. The destination_account does not accept ''
                      @ lax_currency (dst_amount (pf_destination query))
                      @ '', they only accept: '' @ join '', '' (the (destination_currencies raw))
               else if nonEmpty (src_currencies (pf_source query)) then specifiedCurrenciesMessage
               else fallbackMessage)))
         \<and> notAcceptedMessage (lax_currency (dst_amount (pf_destination query)))
               (the (destination_currencies raw)) \<noteq> specifiedCurrenciesMessage
         \<and> notAcceptedMessage (lax_currency (dst_amount (pf_destination query)))
               (the (destination_currencies raw)) \<noteq> fallbackMessage
         \<and> specifiedCurrenciesMessage \<noteq> fallbackMessage
         \<and> (\<exists>pre post. specifiedCurrenciesMessage
                = pre @ ''there may be insufficient liquidity in the network'' @ post)
         \<and> (\<exists>pre post. fallbackMessage
                = pre @ ''ensure that the source_account has sufficient funds'' @ post)"
proof -
  let ?processed = "filterSourceFundsLowPaths query injected"
  have liquidity: "specifiedCurrenciesMessage
      = (''No paths found. Please ensure that the source_account has sufficient funds to execute''
         @ '' the payment in one of the specified source_currencies. If it does '')
        @ ''there may be insufficient liquidity in the network''
        @ '' to execute this payment right now''"
    by (simp add: specifiedCurrenciesMessage_def)
  have funds: "fallbackMessage
      = ''No paths found. Please ''
        @ ''ensure that the source_account has sufficient funds''
        @ ('' to execute the payment. If it does there may be insufficient liquidity''
           @ '' in the network to execute this payment right now'')"
    by (simp add: fallbackMessage_def)
  have texts: "(\<exists>pre post. specifiedCurrenciesMessage
                = pre @ ''there may be insufficient liquidity in the network'' @ post)
         \<and> (\<exists>pre post. fallbackMessage
                = pre @ ''ensure that the source_account has sufficient funds'' @ post)"
    using liquidity funds by blast
  have sc: "nonEmpty (source_currencies ?processed) = nonEmpty (src_currencies (pf_source query))"
    using buildRequest_source_currencies [OF assms(2)] conditionallyAdd_currencies(1) [OF assms(4)]
    by (simp add: filter_currencies addParams_currencies)
  have dc: "destination_currencies ?processed = destination_currencies raw"
    using conditionallyAdd_currencies(2) [OF assms(4)]
    by (simp add: filter_currencies addParams_currencies)
  have run: "getPaths validate enc rename connection getBalance parse query =
               (Request request # calls, formatResponse parse query ?processed)"
    using assms(1-4) by (simp add: getPaths_def requestPathFind_def)
  have msg: "notAcceptedMessage c l
               = ''No paths found. The destination_account does not accept '' @ c
                   @ '', they only accept: '' @ join '', '' l" for c l
    by (simp add: notAcceptedMessage_def)
  have result: "getPaths validate enc rename connection getBalance parse query =
           (Request request # calls,
            Inl (NotFoundError
              (if destination_currencies raw \<noteq> None
                  \<and> lax_currency (dst_amount (pf_destination query))
                       \<notin> set (the (destination_currencies raw))
               then ''No paths found. The destination_account does not accept ''
                      @ lax_currency (dst_amount (pf_destination query))
                      @ '', they only accept: '' @ join '', '' (the (destination_currencies raw))
               else if nonEmpty (src_currencies (pf_source query)) then specifiedCurrenciesMessage
               else fallbackMessage)))"
    using formatResponse_no_alternatives [OF assms(5), of parse] run sc dc
    by (simp add: msg)
  from result messages_distinct texts show ?thesis by blast
qed

theorem not_found_diagnosis_witness:
  "getPaths noValidationError idEncoder renameExample
       (answerWith (emptyResponse (Some [''EUR'', ''XRP''])))
       (balanceOf ''0'') id (receiveQuery ''USD'' None)
     = ([Request (receiveRequest ''USD'')],
        Inl (NotFoundError
          ''No paths found. The destination_account does not accept USD, they only accept: EUR, XRP''))"
proof -
  let ?raw = "emptyResponse (Some [''EUR'', ''XRP''])"
  let ?query = "receiveQuery ''USD'' None"
  have h1: "noValidationError ?query = None"
    by (simp add: noValidationError_def)
  have h2: "buildRequest idEncoder renameExample ?query = Inr (receiveRequest ''USD'')"
    by (simp add: buildRequest_def receiveQuery_def receiveRequest_def idEncoder_def
        defaultIssuer_def truthy_def)
  have h3: "answerWith ?raw (receiveRequest ''USD'') = Inr ?raw"
    by (simp add: answerWith_def)
  have h4: "conditionallyAddDirectXRPPath (balanceOf ''0'') (src_address (pf_source ?query))
              (addParams (receiveRequest ''USD'') ?raw)
            = ([], Inr (addParams (receiveRequest ''USD'') ?raw))"
    by (simp add: conditionallyAddDirectXRPPath_def addParams_def receiveRequest_def
        emptyResponse_def isStoxumdIOUAmount_def)
  have h5: "\<not> nonEmpty (alternatives (filterSourceFundsLowPaths ?query
              (addParams (receiveRequest ''USD'') ?raw)))"
    by (simp add: filterSourceFundsLowPaths_def addParams_def emptyResponse_def receiveQuery_def
        nonEmpty_def)
  from not_found_diagnosis
         [where validate = noValidationError and connection = "answerWith ?raw"
            and query = ?query and parse = id, OF h1 h2 h3 h4 h5, THEN conjunct1]
  show ?thesis
    by (simp add: emptyResponse_def receiveQuery_def)
qed

section \<open>Properties of the request builder\<close>

lemma buildRequest_both_set:
  assumes "src_amount (pf_source query) = Some a"
    and "lax_value (dst_amount (pf_destination query)) \<noteq> None"
  shows "buildRequest enc rename query = Inl (ValidationError bothAmountsMessage)"
  using assms by (simp add: buildRequest_def Let_def)

lemma buildRequest_fixed_spend:
  assumes "src_amount (pf_source query) = Some a"
    and "lax_value (dst_amount (pf_destination query)) = None"
  shows "\<exists>request. buildRequest enc rename query = Inr request
           \<and> send_max request = Some (defaultIssuer (src_address (pf_source query)) (enc a))"
  using assms by (simp add: buildRequest_def Let_def)

lemma defaultIssuer_cases:
  "defaultIssuer addr x =
     (case x of
        Drops s \<Rightarrow> Drops s
      | Issued i \<Rightarrow>
          Issued (if iou_issuer i = None \<or> iou_issuer i = Some []
                  then i\<lparr>iou_issuer := Some addr\<rparr> else i))"
  by (auto simp: defaultIssuer_def truthy_def split: StoxumdAmount.splits option.splits)

text \<open>
  Claim C9.  Let the route query set \<open>source.amount\<close>.  If \<open>destination.amount.value\<close>
  is set too, the request builder fails with a validation error and no round trip is
  made, by \<open>requestPathFind\<close> and so by \<open>getPaths\<close>.  Otherwise a request is built
  and sent, and its \<open>send_max\<close> is the encoded source amount: as it is when it is a
  plain string or has an issuer, and with the source address as issuer when it is
  structured and its issuer is unset (absent or empty).
\<close>

theorem fixed_spend_request:
  assumes "src_amount (pf_source query) = Some a"
  shows "(lax_value (dst_amount (pf_destination query)) \<noteq> None \<longrightarrow>
            requestPathFind enc rename connection query
              = ([], Inl (ValidationError bothAmountsMessage))
            \<and> (validate query = None \<longrightarrow>
                 getPaths validate enc rename connection getBalance parse query
                   = ([], Inl (ValidationError bothAmountsMessage))))
       \<and> (lax_value (dst_amount (pf_destination query)) = None \<longrightarrow>
            (\<exists>request. buildRequest enc rename query = Inr request
               \<and> fst (requestPathFind enc rename connection query) = [Request request]
               \<and> send_max request =
                   Some (case enc a of
                           Drops s \<Rightarrow> Drops s
                         | Issued i \<Rightarrow>
                             Issued (if iou_issuer i = None \<or> iou_issuer i = Some []
                                     then i\<lparr>iou_issuer := Some (src_address (pf_source query))\<rparr>
                                     else i))))"
proof (intro conjI impI)
  assume set: "lax_value (dst_amount (pf_destination query)) \<noteq> None"
  show fails: "requestPathFind enc rename connection query
          = ([], Inl (ValidationError bothAmountsMessage))"
    using buildRequest_both_set [OF assms set] by (simp add: requestPathFind_def)
  assume "validate query = None"
  then show "getPaths validate enc rename connection getBalance parse query
          = ([], Inl (ValidationError bothAmountsMessage))"
    using fails by (simp add: getPaths_def)
next
  assume unset: "lax_value (dst_amount (pf_destination query)) = None"
  from buildRequest_fixed_spend [OF assms unset]
  obtain request where r: "buildRequest enc rename query = Inr request"
    and sm: "send_max request = Some (defaultIssuer (src_address (pf_source query)) (enc a))"
    by blast
  have "fst (requestPathFind enc rename connection query) = [Request request]"
    using r by (simp add: requestPathFind_def)
  with r sm show "\<exists>request. buildRequest enc rename query = Inr request
               \<and> fst (requestPathFind enc rename connection query) = [Request request]
               \<and> send_max request =
                   Some (case enc a of
                           Drops s \<Rightarrow> Drops s
                         | Issued i \<Rightarrow>
                             Issued (if iou_issuer i = None \<or> iou_issuer i = Some []
                                     then i\<lparr>iou_issuer := Some (src_address (pf_source query))\<rparr>
                                     else i))"
    by (auto simp: defaultIssuer_cases)
qed

theorem fixed_spend_request_witness:
  "requestPathFind idEncoder renameExample (answerWith (emptyResponse None)) bothSetQuery
     = ([], Inl (ValidationError bothAmountsMessage))
   \<and> getPaths noValidationError idEncoder renameExample (answerWith (emptyResponse None))
        (balanceOf ''0'') id bothSetQuery
     = ([], Inl (ValidationError bothAmountsMessage))
   \<and> (\<exists>request.
         buildRequest idEncoder renameExample (fixedSpendQuery ''USD'' ''5'') = Inr request
         \<and> fst (requestPathFind idEncoder renameExample (answerWith (emptyResponse None))
                  (fixedSpendQuery ''USD'' ''5'')) = [Request request]
         \<and> send_max request =
             Some (Issued \<lparr>iou_currency = ''USD'', iou_issuer = Some ''rSource'',
                            iou_value = ''5''\<rparr>))"
proof -
  let ?a = "\<lparr>currency = ''USD'', amount_value = ''5'', counterparty = None\<rparr>"
  have b1: "src_amount (pf_source bothSetQuery) = Some ?a"
    by (simp add: bothSetQuery_def)
  have b2: "lax_value (dst_amount (pf_destination bothSetQuery)) \<noteq> None"
    by (simp add: bothSetQuery_def)
  have b3: "noValidationError bothSetQuery = None"
    by (simp add: noValidationError_def)
  have f1: "src_amount (pf_source (fixedSpendQuery ''USD'' ''5'')) = Some ?a"
    by (simp add: fixedSpendQuery_def)
  have f2: "lax_value (dst_amount (pf_destination (fixedSpendQuery ''USD'' ''5''))) = None"
    by (simp add: fixedSpendQuery_def)
  have f3: "idEncoder ?a
              = Issued \<lparr>iou_currency = ''USD'', iou_issuer = None, iou_value = ''5''\<rparr>"
    by (simp add: idEncoder_def)
  have f4: "src_address (pf_source (fixedSpendQuery ''USD'' ''5'')) = ''rSource''"
    by (simp add: fixedSpendQuery_def)
  from fixed_spend_request
         [where query = bothSetQuery and validate = noValidationError and enc = idEncoder
            and rename = renameExample and connection = "answerWith (emptyResponse None)"
            and getBalance = "balanceOf ''0''" and parse = id, OF b1]
       b2 b3
  have first: "requestPathFind idEncoder renameExample (answerWith (emptyResponse None)) bothSetQuery
       = ([], Inl (ValidationError bothAmountsMessage))
     \<and> getPaths noValidationError idEncoder renameExample (answerWith (emptyResponse None))
          (balanceOf ''0'') id bothSetQuery
       = ([], Inl (ValidationError bothAmountsMessage))"
    by blast
  from fixed_spend_request
         [where query = "fixedSpendQuery ''USD'' ''5''" and validate = noValidationError
            and enc = idEncoder and rename = renameExample
            and connection = "answerWith (emptyResponse None)"
            and getBalance = "balanceOf ''0''" and parse = id, OF f1]
       f2 f3 f4
  have second: "\<exists>request.
         buildRequest idEncoder renameExample (fixedSpendQuery ''USD'' ''5'') = Inr request
         \<and> fst (requestPathFind idEncoder renameExample (answerWith (emptyResponse None))
                  (fixedSpendQuery ''USD'' ''5'')) = [Request request]
         \<and> send_max request =
             Some (Issued \<lparr>iou_currency = ''USD'', iou_issuer = Some ''rSource'',
                            iou_value = ''5''\<rparr>)"
    by simp
  from first second show ?thesis by blast
qed

section \<open>Properties of the amount algebra\<close>

text \<open>
  Claim C7.  \<open>createMaximalAmount\<close> returns its argument with the value replaced: by
  \<open>100000000000\<close> when the currency is the native one, by \<open>9999999999999999e80\<close>
  otherwise.  Currency and counterparty are those of the argument.  The two constants
  differ; the second is written in scientific notation and reads as
  \<open>9999999999999999 * 10^80\<close>, the first as \<open>10^11\<close>.
\<close>

theorem createMaximalAmount_sentinel:
  "createMaximalAmount a
     = a\<lparr>amount_value :=
           (if currency a = ''XRP'' then ''100000000000'' else ''9999999999999999e80'')\<rparr>
   \<and> currency (createMaximalAmount a) = currency a
   \<and> counterparty (createMaximalAmount a) = counterparty a
   \<and> maxXRPValue \<noteq> maxIOUValue
   \<and> CHR ''e'' \<in> set maxIOUValue
   \<and> BigNumber maxXRPValue = Some (10 ^ 11)
   \<and> BigNumber maxIOUValue = Some (9999999999999999 * 10 ^ 80)
   \<and> greaterThanOrEqualTo (BigNumber maxIOUValue) (BigNumber maxXRPValue)"
proof -
  have x: "BigNumber maxXRPValue = Some (10 ^ 11)"
    by (simp add: maxXRPValue_def BigNumber_eval)
  have i: "BigNumber maxIOUValue = Some (9999999999999999 * 10 ^ 80)"
    by (simp add: maxIOUValue_def BigNumber_eval)
  have g: "greaterThanOrEqualTo (BigNumber maxIOUValue) (BigNumber maxXRPValue)"
    by (simp add: x i greaterThanOrEqualTo_def)
  show ?thesis
    using x i g by (simp add: createMaximalAmount_def maxXRPValue_def maxIOUValue_def)
qed

theorem createMaximalAmount_sentinel_witness:
  "createMaximalAmount (native ''0.01'') = native ''100000000000''
   \<and> createMaximalAmount \<lparr>currency = ''EUR'', amount_value = ''3'', counterparty = Some ''rDest''\<rparr>
       = \<lparr>currency = ''EUR'', amount_value = ''9999999999999999e80'',
          counterparty = Some ''rDest''\<rparr>"
  using createMaximalAmount_sentinel [of "native ''0.01''"]
    createMaximalAmount_sentinel
      [of "\<lparr>currency = ''EUR'', amount_value = ''3'', counterparty = Some ''rDest''\<rparr>"]
  by (simp add: native_def)

subsection \<open>Counterparty defaulting\<close>

lemma encodeKey_apply:
  "encodeKey adj store key r =
     (if getKey key adj = Some r then defaultCounterparty (address adj) (store r) else store r)"
  by (auto simp: encodeKey_def isIOUWithoutCounterparty_def split: option.splits)

lemma encodeAdjustment_apply:
  "encodeAdjustment store adj r =
     (if holdsAmount adj r then defaultCounterparty (address adj) (store r) else store r)"
  by (simp add: encodeAdjustment_def encodeKey_apply holdsAmount_def)

text \<open>What the two passes do to any one amount object, shared or not: the source's
  pass comes first, and the destination's pass finds a shared object already given a
  counterparty.\<close>

lemma applyAny_apply:
  "applyAnyCounterpartyEncoding payment store r =
     (if holdsAmount (source payment) r
      then defaultCounterparty (address (source payment)) (store r)
      else if holdsAmount (destination payment) r
      then defaultCounterparty (address (destination payment)) (store r)
      else store r)"
  by (simp add: applyAnyCounterpartyEncoding_def encodeAdjustment_apply)




section \<open>Properties of the payment compiler\<close>

lemma currency_applyAny [simp]:
  "currency (applyAnyCounterpartyEncoding payment store r) = currency (store r)"
  by (simp add: applyAny_apply)

lemma isXRPToXRPPayment_encode:
  "isXRPToXRPPayment (applyAnyCounterpartyEncoding payment store) payment
     = isXRPToXRPPayment store payment"
  by (simp add: isXRPToXRPPayment_def currencyOf_def split: option.splits)

lemma create_address_mismatch:
  assumes "addr \<noteq> address (source payment)"
  shows "createPaymentTransaction flags enc convertMemo parse addr store payment
           = Inl (ValidationError addressMismatchMessage)"
  using assms by (simp add: createPaymentTransaction_def Let_def)

lemma create_ambiguous:
  assumes "addr = address (source payment)"
    and "(isMaxAdjustment (source payment) \<and> isMinAdjustment (destination payment))
         \<or> (\<not> isMaxAdjustment (source payment) \<and> \<not> isMinAdjustment (destination payment))"
  shows "createPaymentTransaction flags enc convertMemo parse addr store payment
           = Inl (ValidationError ambiguousAdjustmentMessage)"
  using assms by (auto simp: createPaymentTransaction_def Let_def)

lemma resolved_source_defined:
  assumes "isXRPToXRPPayment store payment = Inr xrp"
  shows "\<exists>s. resolveSourceAmount (source payment) = Some s"
  using assms
  by (cases "resolveSourceAmount (source payment)")
     (auto simp: isXRPToXRPPayment_def resolveSourceAmount_def currencyOf_def
        split: if_splits)

lemma resolved_destination_defined:
  assumes "isXRPToXRPPayment store payment = Inr xrp"
  shows "\<exists>d. resolveDestinationAmount (destination payment) = Some d"
  using assms
  by (cases "resolveDestinationAmount (destination payment)")
     (auto simp: isXRPToXRPPayment_def resolveDestinationAmount_def currencyOf_def
        split: if_splits sum.splits)

lemma create_not_typed:
  assumes "addr = address (source payment)"
    and "isMaxAdjustment (source payment) \<noteq> isMinAdjustment (destination payment)"
    and "isXRPToXRPPayment store payment = Inl e"
  shows "\<exists>e'. createPaymentTransaction flags enc convertMemo parse addr store payment = Inl e'"
  using assms
  by (auto simp: createPaymentTransaction_def Let_def isXRPToXRPPayment_encode
      split: sum.splits)

lemma create_all_native:
  assumes "addr = address (source payment)"
    and "isMaxAdjustment (source payment) \<noteq> isMinAdjustment (destination payment)"
    and "isXRPToXRPPayment store payment = Inr True"
    and "resolveDestinationAmount (destination payment) = Some d"
  shows "createPaymentTransaction flags enc convertMemo parse addr store payment =
     (if allowPartialPayment payment = Some True then Inl (ValidationError partialXRPMessage)
      else Inr
        \<lparr>TransactionType = ''Payment'',
         Account = address (source payment),
         Destination = address (destination payment),
         Amount = enc (applyAnyCounterpartyEncoding payment store d),
         Flags = (if limitQuality payment = Some True
                  then (if noDirectStoxum payment = Some True then 0 OR NoStoxumDirect flags else 0)
                         OR LimitQuality flags
                  else (if noDirectStoxum payment = Some True then 0 OR NoStoxumDirect flags else 0)),
         InvoiceID = invoiceID payment,
         SourceTag = tag (source payment),
         DestinationTag = tag (destination payment),
         Memos = map_option (map convertMemo) (memos payment),
         SendMax = None, DeliverMin = None, Paths = None\<rparr>)"
  using assms
  by (simp add: createPaymentTransaction_def Let_def isXRPToXRPPayment_encode encodeAmount_def)

lemma create_not_native:
  assumes "addr = address (source payment)"
    and "isMaxAdjustment (source payment) \<noteq> isMinAdjustment (destination payment)"
    and "isXRPToXRPPayment store payment = Inr False"
    and "resolveDestinationAmount (destination payment) = Some d"
    and "resolveSourceAmount (source payment) = Some s"
    and "createPaymentTransaction flags enc convertMemo parse addr store payment = Inr tx"
  shows "Amount tx = enc (if isMinAdjustment (destination payment)
                          then createMaximalAmount (applyAnyCounterpartyEncoding payment store d)
                          else applyAnyCounterpartyEncoding payment store d)
       \<and> SendMax tx = Some (enc (applyAnyCounterpartyEncoding payment store s))
       \<and> DeliverMin tx = (if isMinAdjustment (destination payment)
                          then Some (enc (applyAnyCounterpartyEncoding payment store d))
                          else None)"
  using assms
  by (auto simp: createPaymentTransaction_def Let_def isXRPToXRPPayment_encode encodeAmount_def
      split: if_splits option.splits sum.splits)

lemma create_success:
  assumes "createPaymentTransaction flags enc convertMemo parse addr store payment = Inr tx"
  shows "addr = address (source payment)
    \<and> isMaxAdjustment (source payment) \<noteq> isMinAdjustment (destination payment)
    \<and> (\<exists>d s xrp.
          resolveDestinationAmount (destination payment) = Some d
        \<and> resolveSourceAmount (source payment) = Some s
        \<and> isXRPToXRPPayment store payment = Inr xrp
        \<and> Amount tx = enc (if isMinAdjustment (destination payment) \<and> \<not> xrp
                            then createMaximalAmount (applyAnyCounterpartyEncoding payment store d)
                            else applyAnyCounterpartyEncoding payment store d)
        \<and> (xrp \<longrightarrow> SendMax tx = None \<and> DeliverMin tx = None \<and> Paths tx = None
                   \<and> allowPartialPayment payment \<noteq> Some True)
        \<and> (\<not> xrp \<longrightarrow> SendMax tx = Some (enc (applyAnyCounterpartyEncoding payment store s))
                   \<and> DeliverMin tx =
                       (if isMinAdjustment (destination payment)
                        then Some (enc (applyAnyCounterpartyEncoding payment store d))
                        else None)))"
proof -
  have a: "addr = address (source payment)"
    using assms create_address_mismatch [of addr payment flags enc convertMemo parse store]
    by auto
  have sh: "isMaxAdjustment (source payment) \<noteq> isMinAdjustment (destination payment)"
    using assms a create_ambiguous [of addr payment flags enc convertMemo parse store] by auto
  obtain xrp where x: "isXRPToXRPPayment store payment = Inr xrp"
    using assms a sh create_not_typed [of addr payment store _ flags enc convertMemo parse]
    by (cases "isXRPToXRPPayment store payment") auto
  obtain d where d: "resolveDestinationAmount (destination payment) = Some d"
    using resolved_destination_defined [OF x] by blast
  obtain s where s: "resolveSourceAmount (source payment) = Some s"
    using resolved_source_defined [OF x] by blast
  show ?thesis
  proof (cases xrp)
    case True
    with x have xt: "isXRPToXRPPayment store payment = Inr True" by simp
    from create_all_native [OF a sh xt d, of flags enc convertMemo parse] assms
    have "allowPartialPayment payment \<noteq> Some True
          \<and> Amount tx = enc (applyAnyCounterpartyEncoding payment store d)
          \<and> SendMax tx = None \<and> DeliverMin tx = None \<and> Paths tx = None"
      by (auto split: if_splits)
    with a sh d s xt show ?thesis by auto
  next
    case False
    with x have xf: "isXRPToXRPPayment store payment = Inr False" by simp
    from create_not_native [OF a sh xf d s assms] a sh d s xf show ?thesis by auto
  qed
qed

lemma messages_differ:
  "addressMismatchMessage \<noteq> ambiguousAdjustmentMessage"
  by (simp add: addressMismatchMessage_def ambiguousAdjustmentMessage_def)

lemma sample_compiles:
  "createPaymentTransaction exampleFlags idEncoder keepMemo parsePaths ''rSource''
       sampleStore samplePayment
     = Inr (plainTransaction (Drops ''0.01''))"
  by (simp add: payment_eval example_defs)

lemma floored_compiles:
  "createPaymentTransaction exampleFlags idEncoder keepMemo parsePaths ''rSource''
       flooredStore flooredPayment
     = Inr flooredTransaction"
  by (simp add: payment_eval example_defs)

subsection \<open>Adjustment pairing\<close>

text \<open>
  Claim C4 as stated fails.  The intent has both a \<open>maxAmount\<close> source and a
  \<open>minAmount\<close> destination, and the address given differs from the source's.  The
  address check comes first, so compilation fails with the address-mismatch error, not
  with the ambiguous-adjustment error.
\<close>

theorem ambiguous_adjustment_masked_by_address:
  "isMaxAdjustment (source bothPayment)
   \<and> isMinAdjustment (destination bothPayment)
   \<and> createPaymentTransaction exampleFlags idEncoder keepMemo parsePaths ''rOther''
         sampleStore bothPayment
       = Inl (ValidationError addressMismatchMessage)
   \<and> addressMismatchMessage \<noteq> ambiguousAdjustmentMessage"
  by (simp add: payment_eval example_defs messages_differ)

text \<open>
  Claim C4, amended.  Compilation succeeds only if exactly one of the two pairings holds:
  the source has \<open>maxAmount\<close> and the destination has no \<open>minAmount\<close>, or the
  source has no \<open>maxAmount\<close> and the destination has \<open>minAmount\<close>.  For the other
  two combinations (both, or neither) compilation fails with a validation error and
  produces no transaction: the address-mismatch error when the address differs from the
  source's address, the ambiguous-adjustment error otherwise.  \<open>preparePayment\<close> then
  fails with the same error, and the preparation pipeline, the only step that goes to the
  network, is not reached.
\<close>

theorem adjustment_pairing:
  "(createPaymentTransaction flags enc convertMemo parse addr store payment = Inr tx \<longrightarrow>
      (isMaxAdjustment (source payment) \<and> \<not> isMinAdjustment (destination payment))
      \<or> (\<not> isMaxAdjustment (source payment) \<and> isMinAdjustment (destination payment)))
   \<and> ((isMaxAdjustment (source payment) \<and> isMinAdjustment (destination payment))
       \<or> (\<not> isMaxAdjustment (source payment) \<and> \<not> isMinAdjustment (destination payment)) \<longrightarrow>
        createPaymentTransaction flags enc convertMemo parse addr store payment
          = Inl (ValidationError (if addr \<noteq> address (source payment)
                                  then addressMismatchMessage else ambiguousAdjustmentMessage))
        \<and> (validate addr store payment instructions = None \<longrightarrow>
             preparePayment validate prepare flags enc convertMemo parse addr store payment
                 instructions
               = Inl (ValidationError (if addr \<noteq> address (source payment)
                                       then addressMismatchMessage
                                       else ambiguousAdjustmentMessage))))"
proof (intro conjI impI)
  assume "createPaymentTransaction flags enc convertMemo parse addr store payment = Inr tx"
  from create_success [OF this]
  show "(isMaxAdjustment (source payment) \<and> \<not> isMinAdjustment (destination payment))
      \<or> (\<not> isMaxAdjustment (source payment) \<and> isMinAdjustment (destination payment))"
    by auto
next
  assume bad: "(isMaxAdjustment (source payment) \<and> isMinAdjustment (destination payment))
       \<or> (\<not> isMaxAdjustment (source payment) \<and> \<not> isMinAdjustment (destination payment))"
  show fails: "createPaymentTransaction flags enc convertMemo parse addr store payment
          = Inl (ValidationError (if addr \<noteq> address (source payment)
                                  then addressMismatchMessage else ambiguousAdjustmentMessage))"
  proof (cases "addr = address (source payment)")
    case True
    with create_ambiguous [OF True bad] show ?thesis by simp
  next
    case False
    with create_address_mismatch [OF False] show ?thesis by simp
  qed
  assume "validate addr store payment instructions = None"
  with fails
  show "preparePayment validate prepare flags enc convertMemo parse addr store payment
            instructions
               = Inl (ValidationError (if addr \<noteq> address (source payment)
                                       then addressMismatchMessage
                                       else ambiguousAdjustmentMessage))"
    by (simp add: preparePayment_def)
qed

theorem adjustment_pairing_witness:
  "createPaymentTransaction exampleFlags idEncoder keepMemo parsePaths ''rSource''
       sampleStore samplePayment
     = Inr (plainTransaction (Drops ''0.01''))
   \<and> isMaxAdjustment (source samplePayment)
   \<and> \<not> isMinAdjustment (destination samplePayment)
   \<and> createPaymentTransaction exampleFlags idEncoder keepMemo parsePaths ''rSource''
         sampleStore bothPayment
       = Inl (ValidationError ambiguousAdjustmentMessage)
   \<and> preparePayment noPaymentValidationError prepareExample exampleFlags idEncoder keepMemo
         parsePaths ''rSource'' sampleStore bothPayment ()
       = Inl (ValidationError ambiguousAdjustmentMessage)"
proof -
  have ok: "createPaymentTransaction exampleFlags idEncoder keepMemo parsePaths ''rSource''
              sampleStore samplePayment = Inr (plainTransaction (Drops ''0.01''))"
    by (rule sample_compiles)
  have shape: "\<not> (\<not> isMaxAdjustment (source samplePayment)
                   \<and> isMinAdjustment (destination samplePayment))"
    by (simp add: example_defs isMaxAdjustment_def)
  have bad: "isMaxAdjustment (source bothPayment) \<and> isMinAdjustment (destination bothPayment)"
    by (simp add: example_defs isMaxAdjustment_def isMinAdjustment_def)
  have same: "''rSource'' = address (source bothPayment)"
    by (simp add: example_defs)
  have valid: "noPaymentValidationError ''rSource'' sampleStore bothPayment () = None"
    by (simp add: noPaymentValidationError_def)
  from adjustment_pairing
         [where flags = exampleFlags and enc = idEncoder and convertMemo = keepMemo
            and parse = parsePaths and addr = "''rSource''" and store = sampleStore
            and payment = samplePayment and tx = "plainTransaction (Drops ''0.01'')"
            and validate = noPaymentValidationError and prepare = prepareExample
            and instructions = "()"]
       ok shape
  have first: "isMaxAdjustment (source samplePayment)
               \<and> \<not> isMinAdjustment (destination samplePayment)"
    by blast
  from adjustment_pairing
         [where flags = exampleFlags and enc = idEncoder and convertMemo = keepMemo
            and parse = parsePaths and addr = "''rSource''" and store = sampleStore
            and payment = bothPayment
            and validate = noPaymentValidationError and prepare = prepareExample
            and instructions = "()"]
       bad same valid
  have second: "createPaymentTransaction exampleFlags idEncoder keepMemo parsePaths ''rSource''
         sampleStore bothPayment = Inl (ValidationError ambiguousAdjustmentMessage)
     \<and> preparePayment noPaymentValidationError prepareExample exampleFlags idEncoder keepMemo
         parsePaths ''rSource'' sampleStore bothPayment ()
         = Inl (ValidationError ambiguousAdjustmentMessage)"
    by simp
  from ok first second show ?thesis by blast
qed

subsection \<open>All-native payments\<close>

lemma isXRPToXRPPayment_resolved:
  "isXRPToXRPPayment store payment =
     (case resolveSourceAmount (source payment) of
        None \<Rightarrow> Inl TypeError
      | Some s \<Rightarrow>
          (case resolveDestinationAmount (destination payment) of
             None \<Rightarrow> Inl TypeError
           | Some d \<Rightarrow> Inr (currency (store s) = ''XRP'' \<and> currency (store d) = ''XRP'')))"
  by (simp add: isXRPToXRPPayment_def resolveSourceAmount_def resolveDestinationAmount_def
      currencyOf_def split: option.splits)

text \<open>
  Claim C5.  \<open>isXRPToXRPPayment\<close> says yes exactly when the resolved source amount
  and the resolved destination amount both exist and both have the native currency code.
  For such a payment, a request for partial payment makes compilation fail with a
  validation error (the address or the adjustment error if one of those checks fails
  first, the partial-payment error otherwise); and whatever else the intent holds, a
  compiled transaction has no \<open>SendMax\<close>, no \<open>DeliverMin\<close> and no \<open>Paths\<close>.
\<close>

theorem all_native_payment:
  "(isXRPToXRPPayment store payment = Inr True \<longleftrightarrow>
      (\<exists>s d. resolveSourceAmount (source payment) = Some s
           \<and> resolveDestinationAmount (destination payment) = Some d
           \<and> currency (store s) = ''XRP'' \<and> currency (store d) = ''XRP''))
   \<and> (isXRPToXRPPayment store payment = Inr True \<longrightarrow>
        (allowPartialPayment payment = Some True \<longrightarrow>
           createPaymentTransaction flags enc convertMemo parse addr store payment
             = Inl (ValidationError
                 (if addr \<noteq> address (source payment) then addressMismatchMessage
                  else if isMaxAdjustment (source payment) = isMinAdjustment (destination payment)
                  then ambiguousAdjustmentMessage
                  else partialXRPMessage)))
        \<and> (createPaymentTransaction flags enc convertMemo parse addr store payment = Inr tx \<longrightarrow>
             SendMax tx = None \<and> DeliverMin tx = None \<and> Paths tx = None))"
proof (intro conjI impI)
  show "isXRPToXRPPayment store payment = Inr True \<longleftrightarrow>
      (\<exists>s d. resolveSourceAmount (source payment) = Some s
           \<and> resolveDestinationAmount (destination payment) = Some d
           \<and> currency (store s) = ''XRP'' \<and> currency (store d) = ''XRP'')"
    by (auto simp: isXRPToXRPPayment_resolved split: option.splits)
next
  assume x: "isXRPToXRPPayment store payment = Inr True"
    and p: "allowPartialPayment payment = Some True"
  obtain d where d: "resolveDestinationAmount (destination payment) = Some d"
    using resolved_destination_defined [OF x] by blast
  show "createPaymentTransaction flags enc convertMemo parse addr store payment
             = Inl (ValidationError
                 (if addr \<noteq> address (source payment) then addressMismatchMessage
                  else if isMaxAdjustment (source payment) = isMinAdjustment (destination payment)
                  then ambiguousAdjustmentMessage
                  else partialXRPMessage))"
  proof (cases "addr = address (source payment)")
    case False
    with create_address_mismatch [OF False] show ?thesis by simp
  next
    case a: True
    show ?thesis
    proof (cases "isMaxAdjustment (source payment) = isMinAdjustment (destination payment)")
      case True
      then have "(isMaxAdjustment (source payment) \<and> isMinAdjustment (destination payment))
         \<or> (\<not> isMaxAdjustment (source payment) \<and> \<not> isMinAdjustment (destination payment))"
        by blast
      from create_ambiguous [OF a this] a True show ?thesis by simp
    next
      case False
      from create_all_native [OF a False x d] p a False show ?thesis by simp
    qed
  qed
next
  assume x: "isXRPToXRPPayment store payment = Inr True"
    and ok: "createPaymentTransaction flags enc convertMemo parse addr store payment = Inr tx"
  from create_success [OF ok] x
  show "SendMax tx = None" and "DeliverMin tx = None" and "Paths tx = None"
    by auto
qed

theorem all_native_payment_witness:
  "isXRPToXRPPayment sampleStore samplePayment = Inr True
   \<and> createPaymentTransaction exampleFlags idEncoder keepMemo parsePaths ''rSource''
        sampleStore samplePayment
       = Inr (plainTransaction (Drops ''0.01''))
   \<and> SendMax (plainTransaction (Drops ''0.01'')) = None
   \<and> DeliverMin (plainTransaction (Drops ''0.01'')) = None
   \<and> Paths (plainTransaction (Drops ''0.01'')) = (None :: string option)
   \<and> isXRPToXRPPayment sampleStore partialPayment = Inr True
   \<and> createPaymentTransaction exampleFlags idEncoder keepMemo parsePaths ''rSource''
        sampleStore partialPayment
       = Inl (ValidationError partialXRPMessage)"
proof -
  let ?tx = "plainTransaction (Drops ''0.01'')"
  have r1: "resolveSourceAmount (source samplePayment) = Some 0"
    and r2: "resolveDestinationAmount (destination samplePayment) = Some 1"
    and r3: "resolveSourceAmount (source partialPayment) = Some 0"
    and r4: "resolveDestinationAmount (destination partialPayment) = Some 1"
    and c0: "currency (sampleStore 0) = ''XRP''"
    and c1: "currency (sampleStore 1) = ''XRP''"
    by (simp_all add: example_defs partialPayment_def sampleStore_def storeOf_def
        resolveSourceAmount_def resolveDestinationAmount_def
        isMaxAdjustment_def isMinAdjustment_def)
  have ok: "createPaymentTransaction exampleFlags idEncoder keepMemo parsePaths ''rSource''
              sampleStore samplePayment = Inr ?tx"
    by (rule sample_compiles)
  have p: "allowPartialPayment partialPayment = Some True"
    and a: "''rSource'' = address (source partialPayment)"
    and sh: "isMaxAdjustment (source partialPayment)
               \<noteq> isMinAdjustment (destination partialPayment)"
    by (simp_all add: example_defs partialPayment_def isMaxAdjustment_def isMinAdjustment_def)
  from all_native_payment
         [where payment = samplePayment and store = sampleStore and flags = exampleFlags
            and enc = idEncoder and convertMemo = keepMemo and parse = parsePaths
            and addr = "''rSource''" and tx = ?tx]
       r1 r2 c0 c1 ok
  have first: "isXRPToXRPPayment sampleStore samplePayment = Inr True
     \<and> SendMax ?tx = None \<and> DeliverMin ?tx = None \<and> Paths ?tx = None"
    by blast
  from all_native_payment
         [where payment = partialPayment and store = sampleStore and flags = exampleFlags
            and enc = idEncoder and convertMemo = keepMemo and parse = parsePaths
            and addr = "''rSource''" and tx = ?tx]
       r3 r4 c0 c1 p a sh
  have second: "isXRPToXRPPayment sampleStore partialPayment = Inr True
     \<and> createPaymentTransaction exampleFlags idEncoder keepMemo parsePaths ''rSource''
          sampleStore partialPayment
         = Inl (ValidationError partialXRPMessage)"
    by auto
  from ok first second show ?thesis by blast
qed

subsection \<open>Delivery amount\<close>

text \<open>
  Claim C6.  In every successful compilation the resolved destination amount \<open>d\<close> (of
  the intent after counterparty defaulting) exists, and the transaction's \<open>Amount\<close> is
  the encoding of \<open>createMaximalAmount d\<close> when the destination has \<open>minAmount\<close> and
  the payment is not all-native, and the encoding of \<open>d\<close> itself in every other case.
\<close>

theorem delivery_amount:
  assumes "createPaymentTransaction flags enc convertMemo parse addr store payment = Inr tx"
  shows "\<exists>r d. resolveDestinationAmount (destination payment) = Some r
           \<and> d = applyAnyCounterpartyEncoding payment store r
           \<and> Amount tx =
               enc (if isMinAdjustment (destination payment)
                       \<and> isXRPToXRPPayment store payment = Inr False
                    then createMaximalAmount d else d)"
  using create_success [OF assms] by auto

theorem delivery_amount_witness:
  "createPaymentTransaction exampleFlags idEncoder keepMemo parsePaths ''rSource''
       flooredStore flooredPayment
     = Inr flooredTransaction
   \<and> isMinAdjustment (destination flooredPayment)
   \<and> isXRPToXRPPayment flooredStore flooredPayment = Inr False
   \<and> resolveDestinationAmount (destination flooredPayment) = Some 1
   \<and> applyAnyCounterpartyEncoding flooredPayment flooredStore 1
       = \<lparr>currency = ''EUR'', amount_value = ''3'', counterparty = Some ''rDest''\<rparr>
   \<and> Amount flooredTransaction
       = idEncoder (createMaximalAmount
           \<lparr>currency = ''EUR'', amount_value = ''3'', counterparty = Some ''rDest''\<rparr>)"
proof -
  have ok: "createPaymentTransaction exampleFlags idEncoder keepMemo parsePaths ''rSource''
              flooredStore flooredPayment = Inr flooredTransaction"
    by (rule floored_compiles)
  have m: "isMinAdjustment (destination flooredPayment)"
    by (simp add: example_defs isMinAdjustment_def)
  have x: "isXRPToXRPPayment flooredStore flooredPayment = Inr False"
    by (simp add: example_defs isXRPToXRPPayment_def isMaxAdjustment_def
        isMinAdjustment_def currencyOf_def)
  have r: "resolveDestinationAmount (destination flooredPayment) = Some 1"
    by (simp add: example_defs resolveDestinationAmount_def isMinAdjustment_def)
  have d: "applyAnyCounterpartyEncoding flooredPayment flooredStore 1
       = \<lparr>currency = ''EUR'', amount_value = ''3'', counterparty = Some ''rDest''\<rparr>"
    by (simp add: applyAny_apply holdsAmount_def example_defs)
  from delivery_amount [OF ok] m x r d
  have "Amount flooredTransaction
       = idEncoder (createMaximalAmount
           \<lparr>currency = ''EUR'', amount_value = ''3'', counterparty = Some ''rDest''\<rparr>)"
    by auto
  with ok m x r d show ?thesis by blast
qed

end
